theory Spec2Isabelle
  imports Main "HOL-Library.Word" "HOL-Library.List_Lexorder" "HOL-Library.Multiset"
begin

section \<open>Values of the host language\<close>

text \<open>
  The builder is JavaScript: its inputs are loosely typed objects, and every check it makes
  is on the run-time shape of a value.  The model keeps the primitive values apart, with
  strings held as their UTF-8 bytes (the code never looks at a string except through its
  UTF-8 encoding or through the ASCII syntax of a numeral), and numbers as dyadic
  rationals \<open>m * 2 ^ e\<close> beside the three non-finite doubles.
\<close>

type_synonym byte = "8 word"

datatype error = Error string | TypeError | RangeError | SyntaxError

datatype jsnum = NaN | PosInfinity | NegInfinity | Finite int int

datatype jsprim =
    JUndefined
  | JNull
  | JBool bool
  | JNumber jsnum
  | JBigInt int
  | JString string

text \<open>The integer a number denotes, when it is finite and integral.\<close>

fun int_of_num :: "jsnum \<Rightarrow> int option" where
  "int_of_num (Finite m e) =
     (if 0 \<le> e then Some (m * 2 ^ nat e)
      else if m mod 2 ^ nat (- e) = 0 then Some (m div 2 ^ nat (- e))
      else None)"
| "int_of_num _ = None"

text \<open>\<open>!v\<close> is true of \<open>undefined\<close>, \<open>null\<close>, \<open>false\<close>, \<open>0\<close>, \<open>NaN\<close>, \<open>0n\<close> and \<open>""\<close>.\<close>

fun truthy :: "jsprim \<Rightarrow> bool" where
  "truthy JUndefined = False"
| "truthy JNull = False"
| "truthy (JBool b) = b"
| "truthy (JNumber NaN) = False"
| "truthy (JNumber (Finite m e)) = (m \<noteq> 0)"
| "truthy (JNumber _) = True"
| "truthy (JBigInt i) = (i \<noteq> 0)"
| "truthy (JString s) = (s \<noteq> [])"

section \<open>Buffers\<close>

definition Buffer_alloc :: "nat \<Rightarrow> byte list" where
  "Buffer_alloc n = replicate n 0"

definition Buffer_from_utf8 :: "string \<Rightarrow> byte list" where
  "Buffer_from_utf8 s = map of_char s"

text \<open>
  \<open>Buffer.from(v, "utf-8")\<close> on a primitive: a string gives its bytes, every other
  primitive is refused with a \<open>TypeError\<close>.
\<close>

fun Buffer_from :: "jsprim \<Rightarrow> error + byte list" where
  "Buffer_from (JString s) = Inr (Buffer_from_utf8 s)"
| "Buffer_from _ = Inl TypeError"

text \<open>\<open>k\<close> bytes of \<open>v\<close>, least significant first.\<close>

fun le_bytes :: "nat \<Rightarrow> nat \<Rightarrow> byte list" where
  "le_bytes 0 v = []"
| "le_bytes (Suc k) v = of_nat (v mod 256) # le_bytes k (v div 256)"

text \<open>The unsigned little-endian reading of a byte sequence.\<close>

fun le_value :: "byte list \<Rightarrow> nat" where
  "le_value [] = 0"
| "le_value (b # bs) = unat b + 256 * le_value bs"

text \<open>
  The integer writers of \<open>Buffer\<close>: the value is range-checked, then the offset, and the
  bytes replace those of the buffer at the offset.
\<close>

definition write_le :: "nat \<Rightarrow> byte list \<Rightarrow> int \<Rightarrow> nat \<Rightarrow> error + byte list" where
  "write_le k buf v off =
     (if v < 0 \<or> 2 ^ (8 * k) \<le> v then Inl RangeError
      else if length buf < off + k then Inl RangeError
      else Inr (take off buf @ le_bytes k (nat v) @ drop (off + k) buf))"

definition writeUInt8 :: "byte list \<Rightarrow> int \<Rightarrow> nat \<Rightarrow> error + byte list" where
  "writeUInt8 = write_le 1"

definition writeUInt32LE :: "byte list \<Rightarrow> int \<Rightarrow> nat \<Rightarrow> error + byte list" where
  "writeUInt32LE = write_le 4"

definition writeBigUInt64LE :: "byte list \<Rightarrow> int \<Rightarrow> nat \<Rightarrow> error + byte list" where
  "writeBigUInt64LE = write_le 8"

section \<open>Numerals in strings\<close>

text \<open>
  The white space that \<open>BigInt\<close> and \<open>parseFloat\<close> trim: the code points TAB, LF, VT,
  FF, CR, SP, U+00A0, U+1680, U+2000 to U+200A, U+2028, U+2029, U+202F, U+205F, U+3000 and
  U+FEFF, recognised in their UTF-8 form of one, two or three bytes.
\<close>

definition ws1 :: "char \<Rightarrow> bool" where
  "ws1 a = ((of_char a :: nat) \<in> {9, 10, 11, 12, 13, 32})"

definition ws2 :: "char \<Rightarrow> char \<Rightarrow> bool" where
  "ws2 a b = ((of_char a :: nat) = 194 \<and> (of_char b :: nat) = 160)"

definition ws3 :: "char \<Rightarrow> char \<Rightarrow> char \<Rightarrow> bool" where
  "ws3 a b c =
     (let x = (of_char a :: nat); y = (of_char b :: nat); z = (of_char c :: nat) in
      (x = 225 \<and> y = 154 \<and> z = 128) \<or>
      (x = 226 \<and> y = 128 \<and> (128 \<le> z \<and> z \<le> 138 \<or> z = 168 \<or> z = 169 \<or> z = 175)) \<or>
      (x = 226 \<and> y = 129 \<and> z = 159) \<or>
      (x = 227 \<and> y = 128 \<and> z = 128) \<or>
      (x = 239 \<and> y = 187 \<and> z = 191))"

text \<open>
  Strips white space from the front of a string; with \<open>r\<close> set the string is read
  backwards, so that the same function strips the end of a reversed string.
\<close>

fun strip :: "bool \<Rightarrow> string \<Rightarrow> string" where
  "strip r (a # b # c # s) =
     (if ws1 a then strip r (b # c # s)
      else if (if r then ws2 b a else ws2 a b) then strip r (c # s)
      else if (if r then ws3 c b a else ws3 a b c) then strip r s
      else a # b # c # s)"
| "strip r [a, b] =
     (if ws1 a then strip r [b]
      else if (if r then ws2 b a else ws2 a b) then []
      else [a, b])"
| "strip r [a] = (if ws1 a then [] else [a])"
| "strip r [] = []"

definition trimStart :: "string \<Rightarrow> string" where
  "trimStart s = strip False s"

definition trimEnd :: "string \<Rightarrow> string" where
  "trimEnd s = rev (strip True (rev s))"

definition digit_val :: "char \<Rightarrow> nat option" where
  "digit_val ch =
     (let c = (of_char ch :: nat) in
      if 48 \<le> c \<and> c \<le> 57 then Some (c - 48)
      else if 97 \<le> c \<and> c \<le> 102 then Some (c - 87)
      else if 65 \<le> c \<and> c \<le> 70 then Some (c - 55)
      else None)"

fun digits_val :: "nat \<Rightarrow> nat \<Rightarrow> string \<Rightarrow> nat option" where
  "digits_val b acc [] = Some acc"
| "digits_val b acc (c # cs) =
     (case digit_val c of
        Some d \<Rightarrow> if d < b then digits_val b (acc * b + d) cs else None
      | None \<Rightarrow> None)"

definition parse_digits :: "nat \<Rightarrow> string \<Rightarrow> nat option" where
  "parse_digits b s = (if s = [] then None else digits_val b 0 s)"

text \<open>
  The integer literal a string holds for \<open>BigInt(string)\<close>: white space trimmed at both
  ends, then nothing (zero), a decimal numeral with an optional sign, or an unsigned
  numeral in base 16, 8 or 2 after \<open>0x\<close>, \<open>0o\<close>, \<open>0b\<close>.
\<close>

definition StringToBigInt :: "string \<Rightarrow> int option" where
  "StringToBigInt s =
     (let t = trimEnd (trimStart s) in
      if t = [] then Some 0
      else if hd t = CHR ''+'' then map_option int (parse_digits 10 (tl t))
      else if hd t = CHR ''-'' then map_option (\<lambda>n. - int n) (parse_digits 10 (tl t))
      else if hd t = CHR ''0'' \<and> tl t \<noteq> [] \<and> hd (tl t) \<in> {CHR ''x'', CHR ''X''}
        then map_option int (parse_digits 16 (tl (tl t)))
      else if hd t = CHR ''0'' \<and> tl t \<noteq> [] \<and> hd (tl t) \<in> {CHR ''o'', CHR ''O''}
        then map_option int (parse_digits 8 (tl (tl t)))
      else if hd t = CHR ''0'' \<and> tl t \<noteq> [] \<and> hd (tl t) \<in> {CHR ''b'', CHR ''B''}
        then map_option int (parse_digits 2 (tl (tl t)))
      else map_option int (parse_digits 10 t))"

text \<open>
  \<open>BigInt(v)\<close>: a number must be integral (\<open>RangeError\<close> otherwise), a string must hold an
  integer literal (\<open>SyntaxError\<close>), \<open>undefined\<close> and \<open>null\<close> are refused (\<open>TypeError\<close>).
\<close>

fun BigInt :: "jsprim \<Rightarrow> error + int" where
  "BigInt JUndefined = Inl TypeError"
| "BigInt JNull = Inl TypeError"
| "BigInt (JBool b) = Inr (if b then 1 else 0)"
| "BigInt (JNumber n) = (case int_of_num n of Some i \<Rightarrow> Inr i | None \<Rightarrow> Inl RangeError)"
| "BigInt (JBigInt i) = Inr i"
| "BigInt (JString s) = (case StringToBigInt s of Some i \<Rightarrow> Inr i | None \<Rightarrow> Inl SyntaxError)"

section \<open>Double precision\<close>

text \<open>
  \<open>round_double p q\<close> is the double nearest to the rational \<open>p / q\<close> (ties to the even
  mantissa), as mantissa and binary exponent; \<open>None\<close> when the result overflows to
  infinity.  Mantissas have 53 bits, the least exponent is \<open>-1074\<close>.
\<close>

fun bit_length :: "nat \<Rightarrow> nat" where
  "bit_length n = (if n = 0 then 0 else Suc (bit_length (n div 2)))"

declare bit_length.simps [simp del]

definition round_half_even :: "nat \<Rightarrow> nat \<Rightarrow> nat" where
  "round_half_even p q =
     (let d = p div q; r = p mod q in
      if 2 * r < q then d else if q < 2 * r then d + 1 else if even d then d else d + 1)"

definition floorlog2 :: "nat \<Rightarrow> nat \<Rightarrow> int" where
  "floorlog2 p q =
     (let k = int (bit_length p) - int (bit_length q) in
      if (if 0 \<le> k then q * 2 ^ nat k \<le> p else q \<le> p * 2 ^ nat (- k)) then k else k - 1)"

definition round_double :: "nat \<Rightarrow> nat \<Rightarrow> (nat \<times> int) option" where
  "round_double p q =
     (if p = 0 then Some (0, 0)
      else let e = max (floorlog2 p q - 52) (- 1074);
               m = (if 0 \<le> e then round_half_even p (q * 2 ^ nat e)
                    else round_half_even (p * 2 ^ nat (- e)) q)
           in if 1024 < int (bit_length m) + e then None else Some (m, e))"

definition to_number :: "bool \<Rightarrow> nat \<Rightarrow> nat \<Rightarrow> jsnum" where
  "to_number neg p q =
     (case round_double p q of
        None \<Rightarrow> if neg then NegInfinity else PosInfinity
      | Some (m, e) \<Rightarrow> Finite (if neg then - int m else int m) e)"

text \<open>The product of two doubles, rounded once.\<close>

fun multiply :: "jsnum \<Rightarrow> jsnum \<Rightarrow> jsnum" where
  "multiply (Finite m e) (Finite n f) =
     (let x = e + f; p = nat \<bar>m * n\<bar>; neg = (m * n < 0) in
      if 0 \<le> x then to_number neg (p * 2 ^ nat x) 1 else to_number neg p (2 ^ nat (- x)))"
| "multiply NaN _ = NaN"
| "multiply _ NaN = NaN"
| "multiply PosInfinity PosInfinity = PosInfinity"
| "multiply PosInfinity NegInfinity = NegInfinity"
| "multiply NegInfinity PosInfinity = NegInfinity"
| "multiply NegInfinity NegInfinity = PosInfinity"
| "multiply PosInfinity (Finite n f) =
     (if n = 0 then NaN else if 0 < n then PosInfinity else NegInfinity)"
| "multiply NegInfinity (Finite n f) =
     (if n = 0 then NaN else if 0 < n then NegInfinity else PosInfinity)"
| "multiply (Finite m e) PosInfinity =
     (if m = 0 then NaN else if 0 < m then PosInfinity else NegInfinity)"
| "multiply (Finite m e) NegInfinity =
     (if m = 0 then NaN else if 0 < m then NegInfinity else PosInfinity)"

fun Math_floor :: "jsnum \<Rightarrow> jsnum" where
  "Math_floor (Finite m e) =
     (if 0 \<le> e then Finite m e else Finite (m div 2 ^ nat (- e)) 0)"
| "Math_floor x = x"

text \<open>
  \<open>parseFloat\<close> on a string: leading white space is skipped, then the longest prefix that
  is a decimal literal (sign, digits, fraction, exponent; or \<open>Infinity\<close>) is read and
  rounded to a double; what follows is ignored.  No such prefix gives \<open>NaN\<close>.
\<close>

definition is_digit :: "char \<Rightarrow> bool" where
  "is_digit c = (48 \<le> (of_char c :: nat) \<and> (of_char c :: nat) \<le> 57)"

definition dec_value :: "string \<Rightarrow> nat" where
  "dec_value s = foldl (\<lambda>acc c. acc * 10 + (of_char c - 48)) 0 s"

definition exponent_part :: "string \<Rightarrow> int" where
  "exponent_part r =
     (if r \<noteq> [] \<and> hd r \<in> {CHR ''e'', CHR ''E''} then
        let r1 = tl r;
            neg = (r1 \<noteq> [] \<and> hd r1 = CHR ''-'');
            r2 = (if r1 \<noteq> [] \<and> hd r1 \<in> {CHR ''+'', CHR ''-''} then tl r1 else r1);
            ds = takeWhile is_digit r2
        in if ds = [] then 0 else if neg then - int (dec_value ds) else int (dec_value ds)
      else 0)"

definition parseFloat_string :: "string \<Rightarrow> jsnum" where
  "parseFloat_string s =
     (let t = trimStart s;
          neg = (t \<noteq> [] \<and> hd t = CHR ''-'');
          u = (if t \<noteq> [] \<and> hd t \<in> {CHR ''+'', CHR ''-''} then tl t else t)
      in if take 8 u = ''Infinity'' then (if neg then NegInfinity else PosInfinity)
         else
           let ip = takeWhile is_digit u;
               r1 = dropWhile is_digit u;
               dot = (r1 \<noteq> [] \<and> hd r1 = CHR ''.'');
               fp = (if dot then takeWhile is_digit (tl r1) else []);
               r2 = (if dot then dropWhile is_digit (tl r1) else r1)
           in if ip = [] \<and> fp = [] then NaN
              else
                let x = exponent_part r2 - int (length fp);
                    d = dec_value (ip @ fp)
                in if 0 \<le> x then to_number neg (d * 10 ^ nat x) 1
                   else to_number neg d (10 ^ nat (- x)))"

text \<open>The decimal numeral of an integer, as \<open>String(bigint)\<close> prints it.\<close>

fun show_nat :: "nat \<Rightarrow> string" where
  "show_nat n =
     (if n < 10 then [char_of (48 + n)]
      else show_nat (n div 10) @ [char_of (48 + n mod 10)])"

declare show_nat.simps [simp del]

definition show_int :: "int \<Rightarrow> string" where
  "show_int i = (if i < 0 then CHR ''-'' # show_nat (nat (- i)) else show_nat (nat i))"

section \<open>The libraries the builder calls\<close>

text \<open>
  The builder rests on \<open>@solana/web3.js\<close>, \<open>@solana/spl-token\<close> and node's \<open>crypto\<close>.
  What it uses of them is taken as given, one field each:
  \<^item> \<open>PublicKey v\<close> is \<open>new PublicKey(v).toBuffer()\<close>, the bytes of the key or the error
    the constructor throws;
  \<^item> \<open>toBase58\<close> prints a key;
  \<^item> \<open>sha256\<close> is \<open>createHash("sha256").update(b).digest()\<close>;
  \<^item> \<open>findProgramAddressSync seeds program\<close> is the address and bump seed found, or the
    error thrown when the search is exhausted;
  \<^item> \<open>Number_toString\<close> is the engine's printing of a number;
  \<^item> the keys that \<open>constants.js\<close> and the libraries export.
\<close>

type_synonym pubkey = "byte list"

record lib =
  PublicKey :: "jsprim \<Rightarrow> error + pubkey"
  toBase58 :: "pubkey \<Rightarrow> string"
  sha256 :: "byte list \<Rightarrow> byte list"
  findProgramAddressSync :: "byte list list \<Rightarrow> pubkey \<Rightarrow> error + pubkey \<times> nat"
  Number_toString :: "jsnum \<Rightarrow> string"
  PROGRAM_ID :: pubkey
  FEE_ACCOUNT_PUBKEY :: pubkey
  CONFIG_ACCOUNT :: pubkey
  METADATA_PROGRAM_ID :: pubkey
  SystemProgram_programId :: pubkey
  TOKEN_PROGRAM_ID :: pubkey
  SYSVAR_RENT_PUBKEY :: pubkey

definition IPFS_GATEWAY :: string where
  "IPFS_GATEWAY = ''https://ipfs.io/ipfs/''"

fun ToString :: "lib \<Rightarrow> jsprim \<Rightarrow> string" where
  "ToString L JUndefined = ''undefined''"
| "ToString L JNull = ''null''"
| "ToString L (JBool b) = (if b then ''true'' else ''false'')"
| "ToString L (JNumber n) = Number_toString L n"
| "ToString L (JBigInt i) = show_int i"
| "ToString L (JString s) = s"

definition parseFloat :: "lib \<Rightarrow> jsprim \<Rightarrow> jsnum" where
  "parseFloat L v = parseFloat_string (ToString L v)"

section \<open>Errors as values\<close>

definition and_then :: "error + 'a \<Rightarrow> ('a \<Rightarrow> error + 'b) \<Rightarrow> error + 'b" where
  "and_then m f = (case m of Inl e \<Rightarrow> Inl e | Inr x \<Rightarrow> f x)"

text \<open>Runs \<open>f\<close> over a list from the left and stops at the first error, as a loop does.\<close>

fun traverse :: "('a \<Rightarrow> error + 'b) \<Rightarrow> 'a list \<Rightarrow> error + 'b list" where
  "traverse f [] = Inr []"
| "traverse f (x # xs) =
     and_then (f x) (\<lambda>y. and_then (traverse f xs) (\<lambda>ys. Inr (y # ys)))"

section \<open>Manual Borsh serialization helpers\<close>

definition encodeU32 :: "int \<Rightarrow> error + byte list" where
  "encodeU32 v = writeUInt32LE (Buffer_alloc 4) v 0"

definition encodeU64 :: "jsprim \<Rightarrow> error + byte list" where
  "encodeU64 v = and_then (BigInt v) (\<lambda>i. writeBigUInt64LE (Buffer_alloc 8) i 0)"

definition encodeString :: "jsprim \<Rightarrow> error + byte list" where
  "encodeString str =
     and_then (Buffer_from str) (\<lambda>strBuffer.
     and_then (encodeU32 (int (length strBuffer))) (\<lambda>lenBuffer.
     Inr (lenBuffer @ strBuffer)))"

section \<open>The recipe description\<close>

text \<open>
  A seed is an object read through \<open>mint\<close> and \<open>amount_u64\<close>; a property that is absent
  reads as \<open>undefined\<close>.  The \<open>seeds\<close> of a description are an array of seeds or some
  primitive; its other properties are primitives.  \<open>salt\<close> and \<open>seedSalt\<close> are \<open>None\<close>
  when the object has no such property, which the \<open>in\<close> operator tells from a property
  holding \<open>undefined\<close>.
\<close>

record seed =
  mint :: jsprim
  amount_u64 :: jsprim

datatype jsval = Prim jsprim | Array "seed list"

record cookedData =
  seeds :: jsval
  salt :: "jsprim option"
  metadataCid :: jsprim
  name :: jsprim
  symbol :: jsprim
  pda :: jsprim
  seedSalt :: "jsprim option"
  qty_requested :: jsprim

fun truthy_val :: "jsval \<Rightarrow> bool" where
  "truthy_val (Prim p) = truthy p"
| "truthy_val (Array ss) = True"

text \<open>\<open>cookedData[field]\<close> for the property names the builder reads.\<close>

definition get_field :: "cookedData \<Rightarrow> string \<Rightarrow> jsval" where
  "get_field cd f =
     (if f = ''seeds'' then seeds cd
      else if f = ''salt'' then Prim (case salt cd of None \<Rightarrow> JUndefined | Some v \<Rightarrow> v)
      else if f = ''metadataCid'' then Prim (metadataCid cd)
      else if f = ''name'' then Prim (name cd)
      else if f = ''symbol'' then Prim (symbol cd)
      else if f = ''pda'' then Prim (pda cd)
      else if f = ''seedSalt'' then Prim (case seedSalt cd of None \<Rightarrow> JUndefined | Some v \<Rightarrow> v)
      else if f = ''qty_requested'' then Prim (qty_requested cd)
      else Prim JUndefined)"

definition get_prim :: "cookedData \<Rightarrow> string \<Rightarrow> jsprim" where
  "get_prim cd f = (case get_field cd f of Prim p \<Rightarrow> p | Array ss \<Rightarrow> JUndefined)"

definition missing_field :: "string \<Rightarrow> error" where
  "missing_field f =
     Error (''Invalid cookedData: Missing required field '' @ [CHR 0x27] @ f @ [CHR 0x27] @ ''.'')"

definition seeds_not_array :: error where
  "seeds_not_array =
     Error (''Invalid cookedData: '' @ [CHR 0x27] @ ''seeds'' @ [CHR 0x27] @ '' must be an array.'')"

definition seed_incomplete :: error where
  "seed_incomplete =
     Error (''Invalid cookedData: Each seed must have '' @ [CHR 0x27] @ ''mint'' @ [CHR 0x27]
       @ '' and '' @ [CHR 0x27] @ ''amount_u64'' @ [CHR 0x27] @ ''.'')"

text \<open>The test of \<open>every\<close>: \<open>s.mint && s.amount_u64 !== undefined\<close>.\<close>

definition seed_ok :: "seed \<Rightarrow> bool" where
  "seed_ok s = (truthy (mint s) \<and> amount_u64 s \<noteq> JUndefined)"

section \<open>Canonical order\<close>

text \<open>\<open>a.compare(b)\<close> on buffers: bytes as unsigned numbers, a proper prefix first.\<close>

fun Buffer_compare :: "byte list \<Rightarrow> byte list \<Rightarrow> int" where
  "Buffer_compare [] [] = 0"
| "Buffer_compare [] (y # ys) = - 1"
| "Buffer_compare (x # xs) [] = 1"
| "Buffer_compare (x # xs) (y # ys) =
     (if x < y then - 1 else if y < x then 1 else Buffer_compare xs ys)"

text \<open>The comparator every sort of the builder passes.\<close>

definition compareMints :: "lib \<Rightarrow> seed \<Rightarrow> seed \<Rightarrow> error + int" where
  "compareMints L a b =
     and_then (PublicKey L (mint a)) (\<lambda>ka.
     and_then (PublicKey L (mint b)) (\<lambda>kb.
     Inr (Buffer_compare ka kb)))"

text \<open>
  \<open>Array.prototype.sort\<close> with a comparator: the sort is stable, calls the comparator only
  on arrays of two elements or more, and an error the comparator throws ends it with the
  array as it was.  The model inserts from the right, each element before the first one it
  does not exceed.
\<close>

fun insert_by :: "('a \<Rightarrow> 'a \<Rightarrow> error + int) \<Rightarrow> 'a \<Rightarrow> 'a list \<Rightarrow> error + 'a list" where
  "insert_by cmp x [] = Inr [x]"
| "insert_by cmp x (y # ys) =
     and_then (cmp x y) (\<lambda>c.
       if c \<le> 0 then Inr (x # y # ys)
       else and_then (insert_by cmp x ys) (\<lambda>zs. Inr (y # zs)))"

fun Array_sort :: "('a \<Rightarrow> 'a \<Rightarrow> error + int) \<Rightarrow> 'a list \<Rightarrow> error + 'a list" where
  "Array_sort cmp [] = Inr []"
| "Array_sort cmp (x # xs) = and_then (Array_sort cmp xs) (insert_by cmp x)"

section \<open>Address derivation\<close>

record derived =
  pdaKey :: pubkey
  bump :: nat
  sha256Hash :: "byte list"

text \<open>
  \<open>src.copy(target, targetStart, sourceStart, sourceEnd)\<close>, giving the target after the
  copy.  The builder calls it with both starts at 0, where no range error can arise.
\<close>

definition Buffer_copy :: "byte list \<Rightarrow> byte list \<Rightarrow> nat \<Rightarrow> nat \<Rightarrow> nat \<Rightarrow> byte list" where
  "Buffer_copy src target targetStart sourceStart sourceEnd =
     (let n = min (min (sourceEnd - sourceStart) (length target - targetStart))
                (length src - sourceStart)
      in take targetStart target @ take n (drop sourceStart src) @ drop (targetStart + n) target)"

text \<open>
  The three lines that \<open>derivePDAFromCookedData\<close>, \<open>createRecipe\<close> and \<open>useRecipe\<close> each
  spell out: a zeroed buffer of 32 bytes, and the salt's bytes copied over its start.
\<close>

definition saltBuffer :: "byte list \<Rightarrow> byte list" where
  "saltBuffer saltBytes =
     Buffer_copy saltBytes (Buffer_alloc 32) 0 0 (min (length saltBytes) 32)"




text \<open>One turn of the loop over the sorted seeds: the mint's bytes, then the quantity.\<close>

definition seedChunk :: "lib \<Rightarrow> seed \<Rightarrow> error + byte list" where
  "seedChunk L s =
     and_then (PublicKey L (mint s)) (\<lambda>mintBytes.
     and_then (BigInt (amount_u64 s)) (\<lambda>q.
     and_then (writeBigUInt64LE (Buffer_alloc 8) q 0) (\<lambda>qtyBytes.
     Inr (mintBytes @ qtyBytes))))"

definition derivePDAFromCookedData :: "lib \<Rightarrow> cookedData \<Rightarrow> error + derived" where
  "derivePDAFromCookedData L cd =
     (case seeds cd of
        Prim p \<Rightarrow> Inl (Error ''cookedData.seeds must be an array'')
      | Array ss \<Rightarrow>
          (case get_prim cd ''salt'' of
             JString saltStr \<Rightarrow>
               and_then (Array_sort (compareMints L) ss) (\<lambda>sortedSeeds.
               and_then (traverse (seedChunk L) sortedSeeds) (\<lambda>seedChunks.
               let saltBytes = saltBuffer (Buffer_from_utf8 saltStr);
                   concatenated = concat seedChunks @ saltBytes;
                   h = sha256 L concatenated
               in and_then (findProgramAddressSync L [h] (PROGRAM_ID L)) (\<lambda>(p, b).
                  Inr \<lparr>pdaKey = p, bump = b, sha256Hash = h\<rparr>)))
           | _ \<Rightarrow> Inl (Error ''cookedData.salt must be a string'')))"

section \<open>Validation\<close>

text \<open>
  The functions that take the caller's description give back a pair: the caller's object
  as the call leaves it, and the outcome.  \<open>validateCookedData\<close> sorts the caller's
  \<open>seeds\<close> array in place and sets \<open>pda\<close> on the caller's object, which is also the object
  it returns.  (Its first test, that the argument is an object, holds of every
  \<open>cookedData\<close>.)
\<close>

definition validateCookedData :: "lib \<Rightarrow> cookedData \<Rightarrow> cookedData \<times> (error + cookedData)" where
  "validateCookedData L cd =
     (case find (\<lambda>f. \<not> truthy_val (get_field cd f))
             [''seeds'', ''metadataCid'', ''name'', ''symbol''] of
        Some f \<Rightarrow> (cd, Inl (missing_field f))
      | None \<Rightarrow>
          if salt cd = None then (cd, Inl (missing_field ''salt''))
          else
            (case seeds cd of
               Prim p \<Rightarrow> (cd, Inl seeds_not_array)
             | Array ss \<Rightarrow>
                 if \<not> list_all seed_ok ss then (cd, Inl seed_incomplete)
                 else
                   (case Array_sort (compareMints L) ss of
                      Inl e \<Rightarrow> (cd, Inl e)
                    | Inr sortedSeeds \<Rightarrow>
                        let cd1 = cd\<lparr>seeds := Array sortedSeeds\<rparr> in
                        (case derivePDAFromCookedData L cd1 of
                           Inl e \<Rightarrow> (cd1, Inl e)
                         | Inr d \<Rightarrow>
                             let cd2 = cd1\<lparr>pda := JString (toBase58 L (pdaKey d))\<rparr>
                             in (cd2, Inr cd2)))))"

text \<open>\<open>sortSeeds\<close> copies the object and the array before it sorts.\<close>

definition sortSeeds :: "lib \<Rightarrow> cookedData \<Rightarrow> cookedData \<times> (error + cookedData)" where
  "sortSeeds L cd =
     (case seeds cd of
        Prim p \<Rightarrow> (cd, Inl seeds_not_array)
      | Array ss \<Rightarrow>
          if \<not> list_all seed_ok ss then (cd, Inl seed_incomplete)
          else
            (case Array_sort (compareMints L) ss of
               Inl e \<Rightarrow> (cd, Inl e)
             | Inr sortedSeeds \<Rightarrow> (cd, Inr (cd\<lparr>seeds := Array sortedSeeds\<rparr>))))"

definition validateCookedDataForCooking :: "cookedData \<Rightarrow> error + cookedData" where
  "validateCookedDataForCooking cd =
     (case find (\<lambda>f. \<not> truthy_val (get_field cd f)) [''pda'', ''seeds''] of
        Some f \<Rightarrow> Inl (missing_field f)
      | None \<Rightarrow>
          if seedSalt cd = None then Inl (missing_field ''seedSalt'')
          else
            (case seeds cd of
               Prim p \<Rightarrow> Inl seeds_not_array
             | Array ss \<Rightarrow> if \<not> list_all seed_ok ss then Inl seed_incomplete else Inr cd))"

section \<open>Instructions\<close>

record AccountMeta =
  pubkey :: pubkey
  isSigner :: bool
  isWritable :: bool

record TransactionInstruction =
  keys :: "AccountMeta list"
  programId :: pubkey
  data :: "byte list"

definition readonly :: "pubkey \<Rightarrow> AccountMeta" where
  "readonly k = \<lparr>pubkey = k, isSigner = False, isWritable = False\<rparr>"

definition writable :: "pubkey \<Rightarrow> AccountMeta" where
  "writable k = \<lparr>pubkey = k, isSigner = False, isWritable = True\<rparr>"

text \<open>The loop that appends one read-only account for each seed with a mint.\<close>

fun pushMints :: "lib \<Rightarrow> seed list \<Rightarrow> AccountMeta list \<Rightarrow> error + AccountMeta list" where
  "pushMints L [] accounts = Inr accounts"
| "pushMints L (s # ss) accounts =
     (if truthy (mint s)
      then and_then (PublicKey L (mint s)) (\<lambda>k. pushMints L ss (accounts @ [readonly k]))
      else pushMints L ss accounts)"

text \<open>The loop that appends one writable account for each token account.\<close>

fun pushTokenAccounts ::
  "lib \<Rightarrow> jsprim list \<Rightarrow> AccountMeta list \<Rightarrow> error + AccountMeta list" where
  "pushTokenAccounts L [] accounts = Inr accounts"
| "pushTokenAccounts L (t # ts) accounts =
     and_then (PublicKey L t) (\<lambda>k. pushTokenAccounts L ts (accounts @ [writable k]))"

text \<open>\<open>createRecipe\<close> after validation, on the validated object \<open>v\<close>.\<close>

definition createRecipe_build ::
  "lib \<Rightarrow> pubkey \<Rightarrow> cookedData \<Rightarrow> error + TransactionInstruction" where
  "createRecipe_build L feePayerPubkey v =
     (let uri = IPFS_GATEWAY @ ToString L (metadataCid v) in
      and_then (writeUInt8 (Buffer_alloc 1) 1 0) (\<lambda>instructionData.
      and_then (PublicKey L (pda v)) (\<lambda>pdaPubkey.
      and_then (findProgramAddressSync L
                  [Buffer_from_utf8 ''metadata'', METADATA_PROGRAM_ID L, pdaPubkey]
                  (METADATA_PROGRAM_ID L)) (\<lambda>metadataPda.
      let accounts =
            [\<lparr>pubkey = feePayerPubkey, isSigner = True, isWritable = True\<rparr>,
             writable (FEE_ACCOUNT_PUBKEY L),
             readonly (CONFIG_ACCOUNT L),
             writable pdaPubkey,
             writable (fst metadataPda),
             readonly (SystemProgram_programId L),
             readonly (TOKEN_PROGRAM_ID L),
             readonly (SYSVAR_RENT_PUBKEY L),
             readonly (METADATA_PROGRAM_ID L)]
      in
      (case seeds v of
         Prim p \<Rightarrow> Inl TypeError
       | Array ss \<Rightarrow>
           and_then (pushMints L ss accounts) (\<lambda>accounts.
           and_then (traverse (\<lambda>s. BigInt (amount_u64 s)) ss) (\<lambda>amounts.
           and_then (encodeU32 (int (length amounts))) (\<lambda>amountsLen.
           and_then (traverse (\<lambda>a. encodeU64 (JBigInt a)) amounts) (\<lambda>amountsChunks.
           let amountsData = concat amountsChunks;
               instructionData = instructionData @ amountsLen @ amountsData
           in
           and_then (Buffer_from (get_prim v ''salt'')) (\<lambda>saltBytes.
           let instructionData = instructionData @ saltBuffer saltBytes in
           and_then (encodeString (name v)) (\<lambda>nameData.
           and_then (encodeString (symbol v)) (\<lambda>symbolData.
           and_then (encodeString (JString uri)) (\<lambda>uriData.
           Inr \<lparr>keys = accounts, programId = PROGRAM_ID L,
                data = instructionData @ nameData @ symbolData @ uriData\<rparr>)))))))))))))"

definition createRecipe ::
  "lib \<Rightarrow> pubkey \<Rightarrow> cookedData \<Rightarrow> cookedData \<times> (error + TransactionInstruction)" where
  "createRecipe L feePayerPubkey cd =
     (case validateCookedData L cd of
        (cd', Inl e) \<Rightarrow> (cd', Inl e)
      | (cd', Inr v) \<Rightarrow> (cd', createRecipe_build L feePayerPubkey v))"

text \<open>convert ui qty to u64\<close>

definition toBaseUnits :: "lib \<Rightarrow> jsprim \<Rightarrow> nat \<Rightarrow> error + int" where
  "toBaseUnits L amountStr decimals =
     (let floatVal = parseFloat L amountStr in
      if floatVal = NaN then Inl (Error ''Invalid number in qty_requested'')
      else
        let scaled = Math_floor (multiply floatVal (to_number False (10 ^ decimals) 1))
        in BigInt (JNumber scaled))"

definition invalid_option :: error where
  "invalid_option =
     Error (map char_of [195 :: nat, 162, 197, 146]
       @ '' Invalid option. Must be 0x02 (cook) or 0x03 (uncook).'')"

text \<open>\<open>[0x02, 0x03].includes(option)\<close>, with the opcode when it holds.\<close>

fun opcode :: "jsprim \<Rightarrow> int option" where
  "opcode (JNumber n) =
     (case int_of_num n of
        Some i \<Rightarrow> if i = 2 \<or> i = 3 then Some i else None
      | None \<Rightarrow> None)"
| "opcode _ = None"

text \<open>
  \<open>useRecipe\<close> gives \<open>None\<close> where the code returns \<open>null\<close>.  It only reads its arguments.
\<close>

definition useRecipe ::
  "lib \<Rightarrow> pubkey \<Rightarrow> cookedData \<Rightarrow> jsprim list \<Rightarrow> jsprim
     \<Rightarrow> error + TransactionInstruction option" where
  "useRecipe L feePayerPubkey cookedData tokenAccounts option =
     (case opcode option of
        None \<Rightarrow> Inl invalid_option
      | Some code \<Rightarrow>
          and_then (validateCookedDataForCooking cookedData) (\<lambda>v.
          (case seeds v of
             Prim p \<Rightarrow> Inl TypeError
           | Array ss \<Rightarrow>
               if length tokenAccounts \<noteq> 2 * length ss + 2 then Inr None
               else
                 and_then (writeUInt8 (Buffer_alloc 1) code 0) (\<lambda>instructionData.
                 and_then (PublicKey L (pda v)) (\<lambda>pdaPubkey.
                 let accounts =
                       [\<lparr>pubkey = feePayerPubkey, isSigner = True, isWritable = True\<rparr>,
                        writable (FEE_ACCOUNT_PUBKEY L),
                        readonly (CONFIG_ACCOUNT L),
                        writable pdaPubkey,
                        readonly (SystemProgram_programId L),
                        readonly (TOKEN_PROGRAM_ID L),
                        readonly (SYSVAR_RENT_PUBKEY L)]
                 in
                 and_then (pushMints L ss accounts) (\<lambda>accounts.
                 and_then (traverse (\<lambda>s. BigInt (amount_u64 s)) ss) (\<lambda>amounts.
                 and_then (encodeU32 (int (length amounts))) (\<lambda>amountsLen.
                 and_then (traverse (\<lambda>a. encodeU64 (JBigInt a)) amounts) (\<lambda>amountsChunks.
                 let amountsData = concat amountsChunks;
                     instructionData = instructionData @ amountsLen @ amountsData
                 in
                 and_then (Buffer_from (get_prim v ''seedSalt'')) (\<lambda>saltBytes.
                 let instructionData = instructionData @ saltBuffer saltBytes in
                 and_then (toBaseUnits L (qty_requested cookedData) 6) (\<lambda>baseQty.
                 and_then (encodeU64 (JBigInt baseQty)) (\<lambda>qtyRequestedBuf.
                 let instructionData = instructionData @ qtyRequestedBuf in
                 and_then (pushTokenAccounts L tokenAccounts accounts) (\<lambda>accounts.
                 Inr (Some \<lparr>keys = accounts, programId = PROGRAM_ID L,
                            data = instructionData\<rparr>))))))))))))))"

section \<open>A library instance for concrete runs\<close>

text \<open>
  Keys are printed and read in base 58, as \<open>@solana/web3.js\<close> does: a string decodes to a
  key when all its characters are of the alphabet and the bytes number 32.
\<close>

definition base58_alphabet :: string where
  "base58_alphabet = ''123456789ABCDEFGHJKLMNPQRSTUVWXYZabcdefghijkmnopqrstuvwxyz''"

fun index_of :: "char \<Rightarrow> string \<Rightarrow> nat option" where
  "index_of c [] = None"
| "index_of c (d # ds) = (if c = d then Some 0 else map_option Suc (index_of c ds))"

fun base58_value :: "nat \<Rightarrow> string \<Rightarrow> nat option" where
  "base58_value acc [] = Some acc"
| "base58_value acc (c # cs) =
     (case index_of c base58_alphabet of
        None \<Rightarrow> None
      | Some d \<Rightarrow> base58_value (acc * 58 + d) cs)"

fun be_bytes :: "nat \<Rightarrow> byte list" where
  "be_bytes n = (if n = 0 then [] else be_bytes (n div 256) @ [of_nat (n mod 256)])"

declare be_bytes.simps [simp del]

definition bs58_decode :: "string \<Rightarrow> byte list option" where
  "bs58_decode s =
     map_option (\<lambda>n. replicate (length (takeWhile (\<lambda>c. c = CHR ''1'') s)) 0 @ be_bytes n)
       (base58_value 0 s)"

fun be_value :: "nat \<Rightarrow> byte list \<Rightarrow> nat" where
  "be_value acc [] = acc"
| "be_value acc (b # bs) = be_value (acc * 256 + unat b) bs"

fun base58_digits :: "nat \<Rightarrow> string" where
  "base58_digits n =
     (if n = 0 then [] else base58_digits (n div 58) @ [base58_alphabet ! (n mod 58)])"

declare base58_digits.simps [simp del]

definition bs58_encode :: "byte list \<Rightarrow> string" where
  "bs58_encode bs =
     replicate (length (takeWhile (\<lambda>b. b = 0) bs)) (CHR ''1'') @ base58_digits (be_value 0 bs)"

fun node_PublicKey :: "jsprim \<Rightarrow> error + pubkey" where
  "node_PublicKey (JString s) =
     (case bs58_decode s of
        None \<Rightarrow> Inl (Error ''Non-base58 character'')
      | Some bs \<Rightarrow> if length bs \<noteq> 32 then Inl (Error ''Invalid public key input'') else Inr bs)"
| "node_PublicKey _ = Inl TypeError"

definition key_of :: "string \<Rightarrow> pubkey" where
  "key_of s = (case bs58_decode s of Some bs \<Rightarrow> bs | None \<Rightarrow> [])"

text \<open>
  The digest and the address search are stand-ins with the libraries' types: a checksum
  of one byte padded to 32 bytes, and a search that succeeds at once.  Nothing proved for
  every library depends on them; they let the concrete runs below go through.
\<close>

definition stand_in_hash :: "byte list \<Rightarrow> byte list" where
  "stand_in_hash bs = replicate 31 0 @ [foldl (\<lambda>acc b. acc * 31 + b + 1) 0 bs]"

definition node :: lib where
  "node =
     \<lparr>PublicKey = node_PublicKey,
      toBase58 = bs58_encode,
      sha256 = stand_in_hash,
      findProgramAddressSync = (\<lambda>seeds program. Inr (stand_in_hash (concat seeds @ program), 255)),
      Number_toString = (\<lambda>n. ''NaN''),
      PROGRAM_ID = key_of ''CooKTkMQ4V1zfr3faLVxgRwSYM86AWXsEbUC3aeDvXTe'',
      FEE_ACCOUNT_PUBKEY = key_of ''9Hp3RaH2Ve5hG9sBY7shMUSEYy5JcDDRWood8umBgUNm'',
      CONFIG_ACCOUNT = key_of ''GBWBR3gpHvFwVbipxph5dXzjedo9S12yfrD4Hpe57PE7'',
      METADATA_PROGRAM_ID = key_of ''metaqbxxUerdq28cj1RbAWkYQm3ybzjb6a8bt518x1s'',
      SystemProgram_programId = key_of ''11111111111111111111111111111111'',
      TOKEN_PROGRAM_ID = key_of ''TokenkegQfeZyiNwAJbNbGKPFXCWuBvf9Ss623VQ5DA'',
      SYSVAR_RENT_PUBKEY = key_of ''SysvarRent111111111111111111111111111111111''\<rparr>"

text \<open>The inputs of \<open>tests/createRecipe.test.js\<close>, and their like for \<open>useRecipe\<close>.\<close>

definition payer :: pubkey where
  "payer = key_of ''4PYfccDjZpjthkDkKPGQHEZXtSooRwgHCQJTig4myc7x''"

definition mintA :: string where
  "mintA = ''4o5wmhvHtF8JuauJgrzWpR6dyCNQJn9MYwCHNUhBXxve''"

definition mintB :: string where
  "mintB = ''So11111111111111111111111111111111111111112''"

definition keyA :: pubkey where
  "keyA = [56, 97, 94, 90, 9, 16, 5, 93, 189, 65, 46, 153, 172, 223, 71, 230, 128, 9, 212, 166,
           192, 236, 217, 254, 7, 96, 103, 223, 108, 120, 22, 115]"

definition keyB :: pubkey where
  "keyB = [6, 155, 136, 87, 254, 171, 129, 132, 251, 104, 127, 99, 70, 24, 192, 53, 218, 196,
           57, 220, 26, 235, 59, 85, 152, 160, 240, 0, 0, 0, 0, 1]"

definition seedA :: seed where
  "seedA = \<lparr>mint = JString mintA, amount_u64 = JString ''1000000''\<rparr>"

definition seedB :: seed where
  "seedB = \<lparr>mint = JString mintB, amount_u64 = JString ''2000000''\<rparr>"

definition emptyData :: cookedData where
  "emptyData =
     \<lparr>seeds = Prim JUndefined, salt = None, metadataCid = JUndefined, name = JUndefined,
      symbol = JUndefined, pda = JUndefined, seedSalt = None, qty_requested = JUndefined\<rparr>"

definition validData :: cookedData where
  "validData =
     emptyData
       \<lparr>seeds := Array [seedA],
        salt := Some (JString ''random-salt''),
        metadataCid := JString ''some-metadata-cid'',
        name := JString ''Test Recipe'',
        symbol := JString ''TST''\<rparr>"

definition twoSeeds :: "seed list" where
  "twoSeeds = [seedA, seedB]"

definition cookRequest :: cookedData where
  "cookRequest =
     emptyData
       \<lparr>seeds := Array twoSeeds,
        pda := JString mintA,
        seedSalt := Some (JString ''random-salt''),
        qty_requested := JString ''2.5''\<rparr>"

definition cookAccounts :: "jsprim list" where
  "cookAccounts =
     [JString mintB, JString mintA, JString mintB, JString mintA, JString mintB, JString mintA]"

definition random_salt_field :: "byte list" where
  "random_salt_field = [114, 97, 110, 100, 111, 109, 45, 115, 97, 108, 116] @ replicate 21 0"

definition cookInstruction :: TransactionInstruction where
  "cookInstruction =
     \<lparr>keys =
        [\<lparr>pubkey = payer, isSigner = True, isWritable = True\<rparr>,
         writable (key_of ''9Hp3RaH2Ve5hG9sBY7shMUSEYy5JcDDRWood8umBgUNm''),
         readonly (key_of ''GBWBR3gpHvFwVbipxph5dXzjedo9S12yfrD4Hpe57PE7''),
         writable keyA,
         readonly (key_of ''11111111111111111111111111111111''),
         readonly (key_of ''TokenkegQfeZyiNwAJbNbGKPFXCWuBvf9Ss623VQ5DA''),
         readonly (key_of ''SysvarRent111111111111111111111111111111111''),
         readonly keyA, readonly keyB,
         writable keyB, writable keyA, writable keyB, writable keyA, writable keyB,
         writable keyA],
      programId = key_of ''CooKTkMQ4V1zfr3faLVxgRwSYM86AWXsEbUC3aeDvXTe'',
      data =
        [2] @ [2, 0, 0, 0] @ [64, 66, 15, 0, 0, 0, 0, 0] @ [128, 132, 30, 0, 0, 0, 0, 0]
        @ random_salt_field @ [160, 37, 38, 0, 0, 0, 0, 0]\<rparr>"

text \<open>What the stand-ins give on the test's input, and on the same input with no seeds.\<close>

definition digestA :: "byte list" where
  "digestA =
     [0, 0, 0, 0, 0, 0, 0, 0, 0, 0, 0, 0, 0, 0, 0, 0,
      0, 0, 0, 0, 0, 0, 0, 0, 0, 0, 0, 0, 0, 0, 0, 254]"

definition pdaA :: pubkey where
  "pdaA =
     [0, 0, 0, 0, 0, 0, 0, 0, 0, 0, 0, 0, 0, 0, 0, 0,
      0, 0, 0, 0, 0, 0, 0, 0, 0, 0, 0, 0, 0, 0, 0, 138]"

definition pdaA_text :: string where
  "pdaA_text = ''11111111111111111111111111111113P''"

definition digest0 :: "byte list" where
  "digest0 =
     [0, 0, 0, 0, 0, 0, 0, 0, 0, 0, 0, 0, 0, 0, 0, 0,
      0, 0, 0, 0, 0, 0, 0, 0, 0, 0, 0, 0, 0, 0, 0, 224]"

definition pda0 :: pubkey where
  "pda0 =
     [0, 0, 0, 0, 0, 0, 0, 0, 0, 0, 0, 0, 0, 0, 0, 0,
      0, 0, 0, 0, 0, 0, 0, 0, 0, 0, 0, 0, 0, 0, 0, 108]"

definition pda0_text :: string where
  "pda0_text = ''11111111111111111111111111111112s''"

definition programKey :: pubkey where
  "programKey = [175, 109, 165, 74, 185, 224, 97, 57, 179, 36, 203, 106, 176, 31, 142, 192, 94,
                 230, 181, 49, 221, 248, 232, 65, 194, 33, 26, 74, 113, 109, 179, 169]"

definition metadataKey :: pubkey where
  "metadataKey = key_of ''metaqbxxUerdq28cj1RbAWkYQm3ybzjb6a8bt518x1s''"

definition create_tail :: "byte list" where
  "create_tail =
     [11, 0, 0, 0] @ Buffer_from_utf8 ''Test Recipe'' @ [3, 0, 0, 0] @ Buffer_from_utf8 ''TST''
       @ [38, 0, 0, 0] @ Buffer_from_utf8 ''https://ipfs.io/ipfs/some-metadata-cid''"

definition create_keys :: "pubkey \<Rightarrow> AccountMeta list" where
  "create_keys p =
     [\<lparr>pubkey = payer, isSigner = True, isWritable = True\<rparr>,
      writable (key_of ''9Hp3RaH2Ve5hG9sBY7shMUSEYy5JcDDRWood8umBgUNm''),
      readonly (key_of ''GBWBR3gpHvFwVbipxph5dXzjedo9S12yfrD4Hpe57PE7''),
      writable p,
      writable (stand_in_hash (Buffer_from_utf8 ''metadata'' @ metadataKey @ p @ metadataKey)),
      readonly (key_of ''11111111111111111111111111111111''),
      readonly (key_of ''TokenkegQfeZyiNwAJbNbGKPFXCWuBvf9Ss623VQ5DA''),
      readonly (key_of ''SysvarRent111111111111111111111111111111111''),
      readonly metadataKey]"

definition createInstruction :: TransactionInstruction where
  "createInstruction =
     \<lparr>keys = create_keys pdaA @ [readonly keyA],
      programId = key_of ''CooKTkMQ4V1zfr3faLVxgRwSYM86AWXsEbUC3aeDvXTe'',
      data = [1] @ [1, 0, 0, 0] @ [64, 66, 15, 0, 0, 0, 0, 0] @ random_salt_field @ create_tail\<rparr>"

definition createInstruction0 :: TransactionInstruction where
  "createInstruction0 =
     \<lparr>keys = create_keys pda0,
      programId = key_of ''CooKTkMQ4V1zfr3faLVxgRwSYM86AWXsEbUC3aeDvXTe'',
      data = [1] @ [0, 0, 0, 0] @ random_salt_field @ create_tail\<rparr>"

definition noSeedsData :: cookedData where
  "noSeedsData = validData\<lparr>seeds := Array []\<rparr>"

definition unsortedData :: cookedData where
  "unsortedData = validData\<lparr>seeds := Array twoSeeds\<rparr>"

text \<open>What validation makes of two seeds given out of order, and the runs that go with it.\<close>

definition pdaU_text :: string where
  "pdaU_text = ''11111111111111111111111111111113S''"

definition digestU :: "byte list" where
  "digestU =
     [0, 0, 0, 0, 0, 0, 0, 0, 0, 0, 0, 0, 0, 0, 0, 0,
      0, 0, 0, 0, 0, 0, 0, 0, 0, 0, 0, 0, 0, 0, 0, 1]"

definition pdaU :: pubkey where
  "pdaU =
     [0, 0, 0, 0, 0, 0, 0, 0, 0, 0, 0, 0, 0, 0, 0, 0,
      0, 0, 0, 0, 0, 0, 0, 0, 0, 0, 0, 0, 0, 0, 0, 141]"

definition sortedRequest :: cookedData where
  "sortedRequest = cookRequest\<lparr>seeds := Array [seedB, seedA]\<rparr>"

definition sortedInstruction :: TransactionInstruction where
  "sortedInstruction =
     \<lparr>keys =
        [\<lparr>pubkey = payer, isSigner = True, isWritable = True\<rparr>,
         writable (key_of ''9Hp3RaH2Ve5hG9sBY7shMUSEYy5JcDDRWood8umBgUNm''),
         readonly (key_of ''GBWBR3gpHvFwVbipxph5dXzjedo9S12yfrD4Hpe57PE7''),
         writable keyA,
         readonly (key_of ''11111111111111111111111111111111''),
         readonly (key_of ''TokenkegQfeZyiNwAJbNbGKPFXCWuBvf9Ss623VQ5DA''),
         readonly (key_of ''SysvarRent111111111111111111111111111111111''),
         readonly keyB, readonly keyA,
         writable keyB, writable keyA, writable keyB, writable keyA, writable keyB,
         writable keyA],
      programId = key_of ''CooKTkMQ4V1zfr3faLVxgRwSYM86AWXsEbUC3aeDvXTe'',
      data =
        [2] @ [2, 0, 0, 0] @ [128, 132, 30, 0, 0, 0, 0, 0] @ [64, 66, 15, 0, 0, 0, 0, 0]
        @ random_salt_field @ [160, 37, 38, 0, 0, 0, 0, 0]\<rparr>"





section \<open>The specification's words\<close>

text \<open>
  What the specification says of the wire format, stated on its own terms, to be compared
  with what the builder computes.  An unsigned integer of \<open>k\<close> bytes, little-endian: byte
  \<open>i\<close> is the \<open>i\<close>-th digit in base 256.
\<close>

definition uint_le :: "nat \<Rightarrow> nat \<Rightarrow> byte list" where
  "uint_le k n = map (\<lambda>i. of_nat (n div 256 ^ i mod 256)) [0..<k]"

text \<open>The salt field: the UTF-8 bytes, cut at 32 bytes or padded with zeros to 32.\<close>

definition salt_field :: "string \<Rightarrow> byte list" where
  "salt_field s =
     take 32 (Buffer_from_utf8 s) @ replicate (32 - length (Buffer_from_utf8 s)) 0"

text \<open>A length-prefixed string: the byte length as 32 bits, then the UTF-8 bytes.\<close>

definition length_prefixed :: "string \<Rightarrow> byte list" where
  "length_prefixed s = uint_le 4 (length (Buffer_from_utf8 s)) @ Buffer_from_utf8 s"

text \<open>The address bytes and the quantity of a seed, where the library and \<open>BigInt\<close> give them.\<close>

definition mint_bytes :: "lib \<Rightarrow> seed \<Rightarrow> byte list" where
  "mint_bytes L s = (case PublicKey L (mint s) of Inr k \<Rightarrow> k | Inl e \<Rightarrow> [])"

definition quantity :: "seed \<Rightarrow> nat" where
  "quantity s = (case BigInt (amount_u64 s) of Inr q \<Rightarrow> nat q | Inl e \<Rightarrow> 0)"

text \<open>
  Canonical order: ascending in the address bytes, compared byte by byte as unsigned
  numbers (the lexicographic order of byte lists); seeds of equal address keep their order.
\<close>

definition canonical :: "lib \<Rightarrow> seed list \<Rightarrow> seed list" where
  "canonical L ss = sort_key (mint_bytes L) ss"

text \<open>The preimage of the digest: address and quantity of each seed in canonical order, then the salt field.\<close>

definition preimage :: "lib \<Rightarrow> seed list \<Rightarrow> string \<Rightarrow> byte list" where
  "preimage L ss s =
     concat (map (\<lambda>x. mint_bytes L x @ uint_le 8 (quantity x)) (canonical L ss)) @ salt_field s"

text \<open>The payload of \<open>create\<close>.\<close>

definition create_payload ::
  "seed list \<Rightarrow> string \<Rightarrow> string \<Rightarrow> string \<Rightarrow> string \<Rightarrow> byte list" where
  "create_payload ss s displayName ticker uri =
     [1] @ uint_le 4 (length ss) @ concat (map (\<lambda>x. uint_le 8 (quantity x)) ss)
       @ salt_field s @ length_prefixed displayName @ length_prefixed ticker
       @ length_prefixed uri"

text \<open>The payload of \<open>cook\<close> and \<open>uncook\<close>.\<close>

definition use_payload :: "int \<Rightarrow> seed list \<Rightarrow> string \<Rightarrow> nat \<Rightarrow> byte list" where
  "use_payload code ss s convertedQuantity =
     [of_int code] @ uint_le 4 (length ss) @ concat (map (\<lambda>x. uint_le 8 (quantity x)) ss)
       @ salt_field s @ uint_le 8 convertedQuantity"



section \<open>Little-endian bytes\<close>

lemma le_bytes_length: "length (le_bytes k v) = k"
  by (induction k arbitrary: v) simp_all

lemma le_value_le_bytes: "v < 256 ^ k \<Longrightarrow> le_value (le_bytes k v) = v"
proof (induction k arbitrary: v)
  case 0
  then show ?case by simp
next
  case (Suc k)
  have "v div 256 < 256 ^ k"
    using Suc.prems by (simp add: less_mult_imp_div_less mult.commute)
  then have "le_value (le_bytes k (v div 256)) = v div 256"
    by (rule Suc.IH)
  moreover have "unat (of_nat (v mod 256) :: byte) = v mod 256"
    by (simp add: unat_of_nat)
  ultimately show ?case by simp
qed

lemma replicate_numeral: "replicate (numeral n) x = x # replicate (pred_numeral n) x"
  by (simp add: numeral_eq_Suc)

lemma le_bytes_numeral:
  "le_bytes (numeral n) v = of_nat (v mod 256) # le_bytes (pred_numeral n) (v div 256)"
proof -
  have "le_bytes (Suc (pred_numeral n)) v =
      of_nat (v mod 256) # le_bytes (pred_numeral n) (v div 256)"
    by (rule le_bytes.simps)
  then show ?thesis
    by (simp only: numeral_eq_Suc [of n, symmetric])
qed


section \<open>Errors and loops\<close>

lemma and_then_Inr [simp]: "and_then (Inr x) f = f x"
  by (simp add: and_then_def)

lemma and_then_Inl [simp]: "and_then (Inl e) f = Inl e"
  by (simp add: and_then_def)

lemma and_then_eq_Inr: "and_then m f = Inr y \<longleftrightarrow> (\<exists>x. m = Inr x \<and> f x = Inr y)"
  by (cases m) simp_all

lemma traverse_Inr:
  "traverse f xs = Inr ys \<Longrightarrow> list_all2 (\<lambda>x y. f x = Inr y) xs ys"
  by (induction xs arbitrary: ys) (auto simp: and_then_eq_Inr)

lemma traverse_length: "traverse f xs = Inr ys \<Longrightarrow> length ys = length xs"
  by (drule traverse_Inr) (simp add: list_all2_lengthD)

section \<open>The integer writers\<close>

lemma write_le_alloc:
  "write_le k (Buffer_alloc k) v 0 =
     (if v < 0 \<or> 2 ^ (8 * k) \<le> v then Inl RangeError else Inr (le_bytes k (nat v)))"
  by (simp add: write_le_def Buffer_alloc_def le_bytes_length)

lemma encodeU64_BigInt:
  "encodeU64 (JBigInt x) =
     (if x < 0 \<or> 2 ^ 64 \<le> x then Inl RangeError else Inr (le_bytes 8 (nat x)))"
  by (simp add: encodeU64_def writeBigUInt64LE_def write_le_alloc)

lemma encodeU64_Number:
  "int_of_num n = Some x \<Longrightarrow>
   encodeU64 (JNumber n) =
     (if x < 0 \<or> 2 ^ 64 \<le> x then Inl RangeError else Inr (le_bytes 8 (nat x)))"
  by (simp add: encodeU64_def writeBigUInt64LE_def write_le_alloc)

lemma writeUInt8_alloc:
  "0 \<le> c \<Longrightarrow> c < 256 \<Longrightarrow> writeUInt8 (Buffer_alloc 1) c 0 = Inr [of_int c]"
  by (simp add: writeUInt8_def write_le_alloc)

lemma encodeU32_int:
  "encodeU32 (int n) = (if 2 ^ 32 \<le> n then Inl RangeError else Inr (le_bytes 4 n))"
proof -
  have "(2 ^ 32 \<le> int n) = (2 ^ 32 \<le> n)"
    by (metis of_nat_le_iff of_nat_numeral of_nat_power)
  then show ?thesis
    by (simp add: encodeU32_def writeUInt32LE_def write_le_alloc)
qed

lemma traverse_encodeU64:
  "traverse (\<lambda>a. encodeU64 (JBigInt a)) qs = Inr chunks \<Longrightarrow>
   chunks = map (\<lambda>q. le_bytes 8 (nat q)) qs \<and> (\<forall>q\<in>set qs. 0 \<le> q \<and> q < 2 ^ 64)"
proof (induction qs arbitrary: chunks)
  case Nil
  then show ?case by simp
next
  case (Cons q qs)
  from Cons.prems obtain c cs where c: "encodeU64 (JBigInt q) = Inr c"
    and cs: "traverse (\<lambda>a. encodeU64 (JBigInt a)) qs = Inr cs" and chunks: "chunks = c # cs"
    by (auto simp: and_then_eq_Inr)
  from c have "0 \<le> q \<and> q < 2 ^ 64 \<and> c = le_bytes 8 (nat q)"
    by (auto simp: encodeU64_BigInt split: if_splits)
  with Cons.IH [OF cs] chunks show ?case by simp
qed

section \<open>The specification's encodings\<close>

lemma le_bytes_uint_le: "le_bytes k v = uint_le k v"
proof (induction k arbitrary: v)
  case 0
  then show ?case by (simp add: uint_le_def)
next
  case (Suc k)
  have "map (\<lambda>i. of_nat (v div 256 ^ i mod 256) :: byte) [0..<Suc k] =
      of_nat (v mod 256) # map (\<lambda>i. of_nat (v div 256 ^ Suc i mod 256)) [0..<k]"
    by (simp add: upt_conv_Cons map_Suc_upt [symmetric] del: upt_Suc)
  moreover have "v div 256 ^ Suc i = v div 256 div 256 ^ i" for i
    by (simp add: div_mult2_eq)
  ultimately show ?case
    using Suc.IH [of "v div 256"] by (simp add: uint_le_def del: upt_Suc)
qed

lemma saltBuffer_salt_field: "saltBuffer (Buffer_from_utf8 s) = salt_field s"
  by (auto simp: saltBuffer_def salt_field_def Buffer_copy_def Buffer_alloc_def min_def
      drop_replicate)

section \<open>Sorting\<close>

lemma Buffer_compare_le: "Buffer_compare a b \<le> 0 \<longleftrightarrow> a \<le> b"
  by (induction a b rule: Buffer_compare.induct) auto

lemma insert_by_mset:
  "insert_by cmp x ys = Inr zs \<Longrightarrow> mset zs = add_mset x (mset ys)"
  by (induction ys arbitrary: zs) (auto simp: and_then_eq_Inr split: if_splits)

lemma Array_sort_mset: "Array_sort cmp xs = Inr ys \<Longrightarrow> mset ys = mset xs"
  by (induction xs arbitrary: ys) (auto simp: and_then_eq_Inr dest: insert_by_mset)

lemma compareMints_decoded:
  "PublicKey L (mint a) = Inr ka \<Longrightarrow> PublicKey L (mint b) = Inr kb \<Longrightarrow>
   compareMints L a b = Inr (Buffer_compare (mint_bytes L a) (mint_bytes L b))"
  by (simp add: compareMints_def mint_bytes_def)

lemma insert_by_insort_key:
  assumes "\<exists>k. PublicKey L (mint x) = Inr k"
    and "\<forall>y\<in>set ys. \<exists>k. PublicKey L (mint y) = Inr k"
  shows "insert_by (compareMints L) x ys = Inr (insort_key (mint_bytes L) x ys)"
  using assms
  by (induction ys) (auto simp: compareMints_decoded Buffer_compare_le)

lemma Array_sort_canonical:
  assumes "\<forall>y\<in>set xs. \<exists>k. PublicKey L (mint y) = Inr k"
  shows "Array_sort (compareMints L) xs = Inr (canonical L xs)"
  using assms
proof (induction xs)
  case Nil
  then show ?case by (simp add: canonical_def)
next
  case (Cons x xs)
  then have "Array_sort (compareMints L) xs = Inr (canonical L xs)" by simp
  moreover have "\<forall>y\<in>set (canonical L xs). \<exists>k. PublicKey L (mint y) = Inr k"
    using Cons.prems by (simp add: canonical_def)
  ultimately show ?case
    using Cons.prems by (simp add: insert_by_insort_key) (simp add: canonical_def)
qed

section \<open>Derivation and validation\<close>

lemma get_prim_salt: "get_prim cd ''salt'' = JString s \<Longrightarrow> salt cd = Some (JString s)"
  by (auto simp: get_prim_def get_field_def split: option.splits)

lemma seedChunk_Inr:
  "seedChunk L s = Inr c \<Longrightarrow>
   \<exists>k q. PublicKey L (mint s) = Inr k \<and> BigInt (amount_u64 s) = Inr q \<and>
         0 \<le> q \<and> q < 2 ^ 64 \<and> c = mint_bytes L s @ uint_le 8 (quantity s)"
  by (auto simp: seedChunk_def and_then_eq_Inr writeBigUInt64LE_def write_le_alloc
      mint_bytes_def quantity_def le_bytes_uint_le split: if_splits)

lemma traverse_seedChunk:
  "traverse (seedChunk L) xs = Inr cs \<Longrightarrow>
   (\<forall>x\<in>set xs. \<exists>k q. PublicKey L (mint x) = Inr k \<and> BigInt (amount_u64 x) = Inr q \<and>
       0 \<le> q \<and> q < 2 ^ 64) \<and>
   cs = map (\<lambda>x. mint_bytes L x @ uint_le 8 (quantity x)) xs"
proof (induction xs arbitrary: cs)
  case Nil
  then show ?case by simp
next
  case (Cons x xs)
  from Cons.prems obtain c cs' where c: "seedChunk L x = Inr c"
    and cs': "traverse (seedChunk L) xs = Inr cs'" and cs: "cs = c # cs'"
    by (auto simp: and_then_eq_Inr)
  from seedChunk_Inr [OF c] Cons.IH [OF cs'] cs show ?case by auto
qed

lemma derivePDAFromCookedData_Inr:
  assumes "derivePDAFromCookedData L cd = Inr r"
  shows "\<exists>ss s. seeds cd = Array ss \<and> salt cd = Some (JString s) \<and>
     (\<forall>x\<in>set ss. \<exists>k q. PublicKey L (mint x) = Inr k \<and> BigInt (amount_u64 x) = Inr q \<and>
         0 \<le> q \<and> q < 2 ^ 64) \<and>
     sha256Hash r = sha256 L (preimage L ss s) \<and>
     findProgramAddressSync L [sha256Hash r] (PROGRAM_ID L) = Inr (pdaKey r, bump r)"
proof -
  from assms obtain ss where ss: "seeds cd = Array ss"
    by (auto simp: derivePDAFromCookedData_def split: jsval.splits)
  from assms ss obtain s where s: "get_prim cd ''salt'' = JString s"
    by (auto simp: derivePDAFromCookedData_def split: jsprim.splits)
  from assms ss s obtain sortedSeeds seedChunks p b where
    sorted: "Array_sort (compareMints L) ss = Inr sortedSeeds" and
    chunks: "traverse (seedChunk L) sortedSeeds = Inr seedChunks" and
    found: "findProgramAddressSync L
        [sha256 L (concat seedChunks @ saltBuffer (Buffer_from_utf8 s))] (PROGRAM_ID L) = Inr (p, b)" and
    r: "r = \<lparr>pdaKey = p, bump = b,
          sha256Hash = sha256 L (concat seedChunks @ saltBuffer (Buffer_from_utf8 s))\<rparr>"
    by (auto simp: derivePDAFromCookedData_def and_then_eq_Inr Let_def)
  from traverse_seedChunk [OF chunks]
  have dec: "\<forall>x\<in>set sortedSeeds. \<exists>k q. PublicKey L (mint x) = Inr k \<and>
      BigInt (amount_u64 x) = Inr q \<and> 0 \<le> q \<and> q < 2 ^ 64"
    and cs: "seedChunks = map (\<lambda>x. mint_bytes L x @ uint_le 8 (quantity x)) sortedSeeds"
    by auto
  have "set sortedSeeds = set ss"
    using Array_sort_mset [OF sorted] by (rule mset_eq_setD)
  with dec have dec': "\<forall>x\<in>set ss. \<exists>k q. PublicKey L (mint x) = Inr k \<and>
      BigInt (amount_u64 x) = Inr q \<and> 0 \<le> q \<and> q < 2 ^ 64"
    by simp
  then have "Array_sort (compareMints L) ss = Inr (canonical L ss)"
    by (intro Array_sort_canonical) blast
  with sorted have "sortedSeeds = canonical L ss" by simp
  with cs r found ss get_prim_salt [OF s] dec' show ?thesis
    by (simp add: preimage_def saltBuffer_salt_field)
qed

lemma validateCookedData_unfold:
  "validateCookedData L cd =
     (if \<not> truthy_val (seeds cd) then (cd, Inl (missing_field ''seeds''))
      else if \<not> truthy (metadataCid cd) then (cd, Inl (missing_field ''metadataCid''))
      else if \<not> truthy (name cd) then (cd, Inl (missing_field ''name''))
      else if \<not> truthy (symbol cd) then (cd, Inl (missing_field ''symbol''))
      else if salt cd = None then (cd, Inl (missing_field ''salt''))
      else
        (case seeds cd of
           Prim p \<Rightarrow> (cd, Inl seeds_not_array)
         | Array ss \<Rightarrow>
             if \<not> list_all seed_ok ss then (cd, Inl seed_incomplete)
             else
               (case Array_sort (compareMints L) ss of
                  Inl e \<Rightarrow> (cd, Inl e)
                | Inr sortedSeeds \<Rightarrow>
                    (case derivePDAFromCookedData L (cd\<lparr>seeds := Array sortedSeeds\<rparr>) of
                       Inl e \<Rightarrow> (cd\<lparr>seeds := Array sortedSeeds\<rparr>, Inl e)
                     | Inr d \<Rightarrow>
                         (cd\<lparr>seeds := Array sortedSeeds,
                             pda := JString (toBase58 L (pdaKey d))\<rparr>,
                          Inr (cd\<lparr>seeds := Array sortedSeeds,
                                 pda := JString (toBase58 L (pdaKey d))\<rparr>))))))"
  by (auto simp: validateCookedData_def get_field_def Let_def split: jsval.splits sum.splits)

lemma validateCookedData_Inr:
  assumes "validateCookedData L cd = (cd', Inr v)"
  shows "\<exists>ss s d. seeds cd = Array ss \<and> list_all seed_ok ss \<and>
     truthy (metadataCid cd) \<and> truthy (name cd) \<and> truthy (symbol cd) \<and>
     salt cd = Some (JString s) \<and>
     (\<forall>x\<in>set ss. \<exists>k q. PublicKey L (mint x) = Inr k \<and> BigInt (amount_u64 x) = Inr q \<and>
         0 \<le> q \<and> q < 2 ^ 64) \<and>
     derivePDAFromCookedData L (cd\<lparr>seeds := Array (canonical L ss)\<rparr>) = Inr d \<and>
     cd' = cd\<lparr>seeds := Array (canonical L ss), pda := JString (toBase58 L (pdaKey d))\<rparr> \<and>
     v = cd'"
proof -
  from assms have tr: "truthy (metadataCid cd)" "truthy (name cd)" "truthy (symbol cd)"
    and salt: "salt cd \<noteq> None"
    by (auto simp: validateCookedData_unfold split: if_splits)
  from assms tr salt obtain ss where ss: "seeds cd = Array ss"
    by (auto simp: validateCookedData_unfold split: if_splits jsval.splits)
  from assms tr salt ss have ok: "list_all seed_ok ss"
    by (auto simp: validateCookedData_unfold split: if_splits)
  from assms tr salt ss ok obtain sortedSeeds d where
    sorted: "Array_sort (compareMints L) ss = Inr sortedSeeds" and
    d: "derivePDAFromCookedData L (cd\<lparr>seeds := Array sortedSeeds\<rparr>) = Inr d" and
    cd': "cd' = cd\<lparr>seeds := Array sortedSeeds, pda := JString (toBase58 L (pdaKey d))\<rparr>" and
    v: "v = cd'"
    by (auto simp: validateCookedData_unfold split: sum.splits)
  from derivePDAFromCookedData_Inr [OF d] obtain s where
    s: "salt cd = Some (JString s)" and
    dec: "\<forall>x\<in>set sortedSeeds. \<exists>k q. PublicKey L (mint x) = Inr k \<and>
      BigInt (amount_u64 x) = Inr q \<and> 0 \<le> q \<and> q < 2 ^ 64"
    by auto
  have "set sortedSeeds = set ss"
    using Array_sort_mset [OF sorted] by (rule mset_eq_setD)
  with dec have dec': "\<forall>x\<in>set ss. \<exists>k q. PublicKey L (mint x) = Inr k \<and>
      BigInt (amount_u64 x) = Inr q \<and> 0 \<le> q \<and> q < 2 ^ 64"
    by simp
  then have "Array_sort (compareMints L) ss = Inr (canonical L ss)"
    by (intro Array_sort_canonical) blast
  with sorted have "sortedSeeds = canonical L ss" by simp
  with ss ok tr s dec' d cd' v show ?thesis by simp
qed

section \<open>The account loops\<close>

lemma pushMints_Inr:
  "pushMints L ss acc = Inr acc' \<Longrightarrow>
   \<exists>ks. acc' = acc @ map readonly ks \<and>
        list_all2 (\<lambda>s k. PublicKey L (mint s) = Inr k) (filter (\<lambda>s. truthy (mint s)) ss) ks"
proof (induction ss arbitrary: acc)
  case Nil
  then show ?case by simp
next
  case (Cons s ss)
  show ?case
  proof (cases "truthy (mint s)")
    case True
    with Cons.prems obtain k where k: "PublicKey L (mint s) = Inr k"
      and rest: "pushMints L ss (acc @ [readonly k]) = Inr acc'"
      by (auto simp: and_then_eq_Inr)
    from Cons.IH [OF rest] obtain ks where "acc' = (acc @ [readonly k]) @ map readonly ks"
      and "list_all2 (\<lambda>s k. PublicKey L (mint s) = Inr k) (filter (\<lambda>s. truthy (mint s)) ss) ks"
      by blast
    with True k show ?thesis
      by (intro exI [of _ "k # ks"]) simp
  next
    case False
    with Cons show ?thesis by simp
  qed
qed

lemma pushTokenAccounts_Inr:
  "pushTokenAccounts L ts acc = Inr acc' \<Longrightarrow>
   \<exists>ks. acc' = acc @ map writable ks \<and> list_all2 (\<lambda>t k. PublicKey L t = Inr k) ts ks"
proof (induction ts arbitrary: acc)
  case Nil
  then show ?case by simp
next
  case (Cons t ts)
  from Cons.prems obtain k where k: "PublicKey L t = Inr k"
    and rest: "pushTokenAccounts L ts (acc @ [writable k]) = Inr acc'"
    by (auto simp: and_then_eq_Inr)
  from Cons.IH [OF rest] obtain ks where "acc' = (acc @ [writable k]) @ map writable ks"
    and "list_all2 (\<lambda>t k. PublicKey L t = Inr k) ts ks"
    by blast
  with k show ?case
    by (intro exI [of _ "k # ks"]) simp
qed

lemma filter_seed_ok: "list_all seed_ok ss \<Longrightarrow> filter (\<lambda>s. truthy (mint s)) ss = ss"
  by (induction ss) (auto simp: seed_ok_def)

section \<open>What \<open>createRecipe\<close> returns\<close>

lemma encodeString_Inr:
  "encodeString v = Inr bs \<Longrightarrow>
   \<exists>s. v = JString s \<and> bs = length_prefixed s \<and> length (Buffer_from_utf8 s) < 2 ^ 32"
  by (cases v)
    (auto simp: encodeString_def and_then_eq_Inr encodeU32_int length_prefixed_def
      le_bytes_uint_le split: if_splits)

lemma Buffer_from_Inr: "Buffer_from v = Inr bs \<Longrightarrow> \<exists>s. v = JString s \<and> bs = Buffer_from_utf8 s"
  by (cases v) auto

lemma amounts_quantities:
  "list_all2 (\<lambda>s q. BigInt (amount_u64 s) = Inr q) ss qs \<Longrightarrow>
   map (\<lambda>q. le_bytes 8 (nat q)) qs = map (\<lambda>x. uint_le 8 (quantity x)) ss"
  by (induction rule: list_all2_induct) (simp_all add: quantity_def le_bytes_uint_le)

lemma mints_mint_bytes:
  "list_all2 (\<lambda>s k. PublicKey L (mint s) = Inr k) ss ms \<Longrightarrow> ms = map (mint_bytes L) ss"
  by (induction rule: list_all2_induct) (simp_all add: mint_bytes_def)

lemma createRecipe_build_Inr:
  assumes "createRecipe_build L feePayerPubkey v = Inr ins"
    and "seeds v = Array ss" and "list_all seed_ok ss"
  shows "\<exists>pdaPubkey metadataPda s nm sy.
     PublicKey L (pda v) = Inr pdaPubkey \<and>
     findProgramAddressSync L [Buffer_from_utf8 ''metadata'', METADATA_PROGRAM_ID L, pdaPubkey]
       (METADATA_PROGRAM_ID L) = Inr metadataPda \<and>
     get_prim v ''salt'' = JString s \<and> name v = JString nm \<and> symbol v = JString sy \<and>
     data ins = create_payload ss s nm sy (IPFS_GATEWAY @ ToString L (metadataCid v)) \<and>
     keys ins =
       [\<lparr>pubkey = feePayerPubkey, isSigner = True, isWritable = True\<rparr>,
        writable (FEE_ACCOUNT_PUBKEY L), readonly (CONFIG_ACCOUNT L), writable pdaPubkey,
        writable (fst metadataPda), readonly (SystemProgram_programId L),
        readonly (TOKEN_PROGRAM_ID L), readonly (SYSVAR_RENT_PUBKEY L),
        readonly (METADATA_PROGRAM_ID L)] @ map (\<lambda>x. readonly (mint_bytes L x)) ss \<and>
     programId ins = PROGRAM_ID L"
proof -
  have w8: "writeUInt8 (Buffer_alloc 1) 1 0 = Inr [1]"
    using writeUInt8_alloc [of 1] by simp
  let ?fixed = "\<lambda>pdaPubkey metadataPda.
       [\<lparr>pubkey = feePayerPubkey, isSigner = True, isWritable = True\<rparr>,
        writable (FEE_ACCOUNT_PUBKEY L), readonly (CONFIG_ACCOUNT L), writable pdaPubkey,
        writable (fst metadataPda), readonly (SystemProgram_programId L),
        readonly (TOKEN_PROGRAM_ID L), readonly (SYSVAR_RENT_PUBKEY L),
        readonly (METADATA_PROGRAM_ID L)]"
  from assms(1,2) w8
  obtain pdaPubkey metadataPda acc qs amountsLen chunks saltBytes nameData symbolData uriData
    where pk: "PublicKey L (pda v) = Inr pdaPubkey" and
    mp: "findProgramAddressSync L [Buffer_from_utf8 ''metadata'', METADATA_PROGRAM_ID L, pdaPubkey]
       (METADATA_PROGRAM_ID L) = Inr metadataPda" and
    pm: "pushMints L ss (?fixed pdaPubkey metadataPda) = Inr acc" and
    qs: "traverse (\<lambda>s. BigInt (amount_u64 s)) ss = Inr qs" and
    al: "encodeU32 (int (length qs)) = Inr amountsLen" and
    ch: "traverse (\<lambda>a. encodeU64 (JBigInt a)) qs = Inr chunks" and
    sb: "Buffer_from (get_prim v ''salt'') = Inr saltBytes" and
    nd: "encodeString (name v) = Inr nameData" and
    sd: "encodeString (symbol v) = Inr symbolData" and
    ud: "encodeString (JString (IPFS_GATEWAY @ ToString L (metadataCid v))) = Inr uriData" and
    ins: "ins = \<lparr>keys = acc, programId = PROGRAM_ID L,
            data = ([1] @ amountsLen @ concat chunks) @ saltBuffer saltBytes
               @ nameData @ symbolData @ uriData\<rparr>"
    by (auto simp: createRecipe_build_def and_then_eq_Inr Let_def)
  from pm assms(3) obtain ms where acc: "acc = ?fixed pdaPubkey metadataPda @ map readonly ms"
    and ms: "list_all2 (\<lambda>s k. PublicKey L (mint s) = Inr k) ss ms"
    by (auto dest!: pushMints_Inr simp: filter_seed_ok)
  have lq: "length qs = length ss" using qs by (rule traverse_length)
  from al lq have al': "amountsLen = uint_le 4 (length ss)"
    by (auto simp: encodeU32_int le_bytes_uint_le split: if_splits)
  from ch have "chunks = map (\<lambda>q. le_bytes 8 (nat q)) qs"
    by (auto dest: traverse_encodeU64)
  with amounts_quantities [OF traverse_Inr [OF qs]]
  have ch': "chunks = map (\<lambda>x. uint_le 8 (quantity x)) ss" by simp
  from sb obtain s where s: "get_prim v ''salt'' = JString s" "saltBytes = Buffer_from_utf8 s"
    by (auto dest: Buffer_from_Inr)
  from nd obtain nm where nm: "name v = JString nm" "nameData = length_prefixed nm"
    by (auto dest: encodeString_Inr)
  from sd obtain sy where sy: "symbol v = JString sy" "symbolData = length_prefixed sy"
    by (auto dest: encodeString_Inr)
  from ud have ud': "uriData = length_prefixed (IPFS_GATEWAY @ ToString L (metadataCid v))"
    by (auto dest: encodeString_Inr)
  have keys: "map readonly ms = map (\<lambda>x. readonly (mint_bytes L x)) ss"
    using mints_mint_bytes [OF ms] by simp
  show ?thesis
    using pk mp s nm sy ud' al' ch' ins acc keys
    by (intro exI [of _ pdaPubkey] exI [of _ metadataPda] exI [of _ s] exI [of _ nm]
        exI [of _ sy]) (simp add: create_payload_def saltBuffer_salt_field)
qed

lemma createRecipe_Inr:
  assumes "createRecipe L feePayerPubkey cd = (cd', Inr ins)"
  shows "validateCookedData L cd = (cd', Inr cd') \<and>
     createRecipe_build L feePayerPubkey cd' = Inr ins"
proof -
  obtain c r where vr: "validateCookedData L cd = (c, r)" by (cases "validateCookedData L cd")
  with assms obtain v where r: "r = Inr v" and c: "c = cd'"
    and b: "createRecipe_build L feePayerPubkey v = Inr ins"
    by (cases r) (auto simp: createRecipe_def)
  from vr r c have "validateCookedData L cd = (cd', Inr v)" by simp
  then have "v = cd'" by (blast dest: validateCookedData_Inr)
  with vr r c b show ?thesis by simp
qed

section \<open>What \<open>useRecipe\<close> returns\<close>

lemma opcode_Some: "opcode option = Some c \<Longrightarrow> c = 2 \<or> c = 3"
  by (cases option) (auto split: option.splits if_splits)

lemma validateCookedDataForCooking_Inr:
  "validateCookedDataForCooking cd = Inr v \<Longrightarrow>
   v = cd \<and> truthy (pda cd) \<and> seedSalt cd \<noteq> None \<and>
   (\<exists>ss. seeds cd = Array ss \<and> list_all seed_ok ss)"
  by (auto simp: validateCookedDataForCooking_def get_field_def
      split: option.splits jsval.splits if_splits)

text \<open>The parts of an instruction that \<open>useRecipe\<close> returns.\<close>

lemma useRecipe_Some:
  assumes "useRecipe L feePayerPubkey cd tokenAccounts option = Inr (Some ins)"
  shows "\<exists>c ss qs saltBytes baseQty pdaPubkey ms ts.
     opcode option = Some c \<and> seeds cd = Array ss \<and> list_all seed_ok ss \<and>
     length tokenAccounts = 2 * length ss + 2 \<and>
     PublicKey L (pda cd) = Inr pdaPubkey \<and>
     list_all2 (\<lambda>s k. PublicKey L (mint s) = Inr k) ss ms \<and>
     list_all2 (\<lambda>s q. BigInt (amount_u64 s) = Inr q) ss qs \<and>
     (\<forall>q\<in>set qs. 0 \<le> q \<and> q < 2 ^ 64) \<and> length ss < 2 ^ 32 \<and>
     Buffer_from (get_prim cd ''seedSalt'') = Inr saltBytes \<and>
     toBaseUnits L (qty_requested cd) 6 = Inr baseQty \<and> 0 \<le> baseQty \<and> baseQty < 2 ^ 64 \<and>
     list_all2 (\<lambda>t k. PublicKey L t = Inr k) tokenAccounts ts \<and>
     data ins = [of_int c] @ le_bytes 4 (length ss) @ concat (map (\<lambda>q. le_bytes 8 (nat q)) qs)
        @ saltBuffer saltBytes @ le_bytes 8 (nat baseQty) \<and>
     keys ins =
       [\<lparr>pubkey = feePayerPubkey, isSigner = True, isWritable = True\<rparr>,
        writable (FEE_ACCOUNT_PUBKEY L), readonly (CONFIG_ACCOUNT L), writable pdaPubkey,
        readonly (SystemProgram_programId L), readonly (TOKEN_PROGRAM_ID L),
        readonly (SYSVAR_RENT_PUBKEY L)] @ map readonly ms @ map writable ts \<and>
     programId ins = PROGRAM_ID L"
proof -
  from assms obtain c where c: "opcode option = Some c"
    by (auto simp: useRecipe_def split: option.splits)
  then have c23: "c = 2 \<or> c = 3" by (rule opcode_Some)
  from assms c obtain v where v: "validateCookedDataForCooking cd = Inr v"
    by (auto simp: useRecipe_def and_then_eq_Inr)
  then obtain ss where vcd: "v = cd" and ss: "seeds cd = Array ss" and ok: "list_all seed_ok ss"
    by (auto dest: validateCookedDataForCooking_Inr)
  from assms c v vcd ss have len: "length tokenAccounts = 2 * length ss + 2"
    by (auto simp: useRecipe_def split: if_splits)
  have w8: "writeUInt8 (Buffer_alloc 1) c 0 = Inr [of_int c]"
    using c23 writeUInt8_alloc [of c] by auto
  let ?fixed = "[\<lparr>pubkey = feePayerPubkey, isSigner = True, isWritable = True\<rparr>,
        writable (FEE_ACCOUNT_PUBKEY L), readonly (CONFIG_ACCOUNT L)]"
  from assms c v vcd ss len w8
  obtain pdaPubkey acc1 qs amountsLen chunks saltBytes baseQty qbuf acc2 where
    pk: "PublicKey L (pda cd) = Inr pdaPubkey" and
    pm: "pushMints L ss (?fixed @ [writable pdaPubkey,
        readonly (SystemProgram_programId L), readonly (TOKEN_PROGRAM_ID L),
        readonly (SYSVAR_RENT_PUBKEY L)]) = Inr acc1" and
    qs: "traverse (\<lambda>s. BigInt (amount_u64 s)) ss = Inr qs" and
    al: "encodeU32 (int (length qs)) = Inr amountsLen" and
    ch: "traverse (\<lambda>a. encodeU64 (JBigInt a)) qs = Inr chunks" and
    sb: "Buffer_from (get_prim cd ''seedSalt'') = Inr saltBytes" and
    bq: "toBaseUnits L (qty_requested cd) 6 = Inr baseQty" and
    qb: "encodeU64 (JBigInt baseQty) = Inr qbuf" and
    pt: "pushTokenAccounts L tokenAccounts acc1 = Inr acc2" and
    ins: "ins = \<lparr>keys = acc2, programId = PROGRAM_ID L,
            data = [of_int c] @ amountsLen @ concat chunks @ saltBuffer saltBytes @ qbuf\<rparr>"
    by (auto simp: useRecipe_def and_then_eq_Inr Let_def)
  from pm ok obtain ms where acc1: "acc1 = (?fixed @ [writable pdaPubkey,
        readonly (SystemProgram_programId L), readonly (TOKEN_PROGRAM_ID L),
        readonly (SYSVAR_RENT_PUBKEY L)]) @ map readonly ms"
    and ms: "list_all2 (\<lambda>s k. PublicKey L (mint s) = Inr k) ss ms"
    by (auto dest!: pushMints_Inr simp: filter_seed_ok)
  from pt obtain ts where acc2: "acc2 = acc1 @ map writable ts"
    and ts: "list_all2 (\<lambda>t k. PublicKey L t = Inr k) tokenAccounts ts"
    by (auto dest!: pushTokenAccounts_Inr)
  have lq: "length qs = length ss" using qs by (rule traverse_length)
  from al lq have al': "length ss < 2 ^ 32" "amountsLen = le_bytes 4 (length ss)"
    by (auto simp: encodeU32_int split: if_splits)
  from ch have ch': "chunks = map (\<lambda>q. le_bytes 8 (nat q)) qs"
      "\<forall>q\<in>set qs. 0 \<le> q \<and> q < 2 ^ 64"
    by (auto dest: traverse_encodeU64)
  from qb have qb': "0 \<le> baseQty" "baseQty < 2 ^ 64" "qbuf = le_bytes 8 (nat baseQty)"
    by (auto simp: encodeU64_BigInt split: if_splits)
  show ?thesis
    using c ss ok len pk ms traverse_Inr [OF qs] ch' al' sb bq qb' ts ins acc1 acc2
    by (intro exI [of _ c] exI [of _ ss] exI [of _ qs] exI [of _ saltBytes] exI [of _ baseQty]
        exI [of _ pdaPubkey] exI [of _ ms] exI [of _ ts]) simp
qed

lemma insert_by_decodes:
  "insert_by (compareMints L) x (y # ys) = Inr zs \<Longrightarrow>
   (\<exists>k. PublicKey L (mint x) = Inr k) \<and> (\<exists>k. PublicKey L (mint y) = Inr k)"
  by (auto simp: and_then_eq_Inr compareMints_def)

lemma Array_sort_decodes:
  "Array_sort (compareMints L) xs = Inr ys \<Longrightarrow> 2 \<le> length xs \<Longrightarrow>
   \<forall>x\<in>set xs. \<exists>k. PublicKey L (mint x) = Inr k"
proof (induction xs arbitrary: ys)
  case Nil
  then show ?case by simp
next
  case (Cons x xs)
  from Cons.prems(1) obtain ys' where ys': "Array_sort (compareMints L) xs = Inr ys'"
    and ins: "insert_by (compareMints L) x ys' = Inr ys"
    by (auto simp: and_then_eq_Inr)
  have m: "mset ys' = mset xs" using ys' by (rule Array_sort_mset)
  from Cons.prems(2) have "xs \<noteq> []" by auto
  with m obtain y ys'' where yy: "ys' = y # ys''" by (cases ys') auto
  from insert_by_decodes [OF ins [unfolded yy]]
  have dx: "\<exists>k. PublicKey L (mint x) = Inr k" and dy: "\<exists>k. PublicKey L (mint y) = Inr k"
    by auto
  have "\<forall>z\<in>set xs. \<exists>k. PublicKey L (mint z) = Inr k"
  proof (cases "2 \<le> length xs")
    case True
    with Cons.IH [OF ys'] show ?thesis by simp
  next
    case False
    with \<open>xs \<noteq> []\<close> obtain z where "xs = [z]"
      by (cases xs) (auto simp: Suc_le_eq)
    with m yy have "z = y" by (auto simp: yy)
    with dy \<open>xs = [z]\<close> show ?thesis by simp
  qed
  with dx show ?case by simp
qed

lemma canonical_short: "length xs \<le> 1 \<Longrightarrow> canonical L xs = xs"
  by (cases xs) (auto simp: canonical_def)

lemma Array_sort_short: "length xs \<le> 1 \<Longrightarrow> Array_sort cmp xs = Inr xs"
  by (cases xs) auto

lemma Array_sort_Inr_canonical:
  assumes "Array_sort (compareMints L) xs = Inr ys"
  shows "ys = canonical L xs"
proof (cases "2 \<le> length xs")
  case True
  with assms have "\<forall>x\<in>set xs. \<exists>k. PublicKey L (mint x) = Inr k"
    by (rule Array_sort_decodes)
  then have "Array_sort (compareMints L) xs = Inr (canonical L xs)"
    by (rule Array_sort_canonical)
  with assms show ?thesis by simp
next
  case False
  then have "length xs \<le> 1" by simp
  with assms show ?thesis by (simp add: Array_sort_short canonical_short)
qed

lemma canonical_sorted:
  "mset (canonical L ss) = mset ss" "sorted (map (mint_bytes L) (canonical L ss))"
  "set (canonical L ss) = set ss" "length (canonical L ss) = length ss"
  by (simp_all add: canonical_def)




lemma get_prim_seedSalt:
  "get_prim cd ''seedSalt'' = JString s \<Longrightarrow> seedSalt cd = Some (JString s)"
  by (auto simp: get_prim_def get_field_def split: option.splits)

lemma sortSeeds_unfold:
  "sortSeeds L cd =
     (case seeds cd of
        Prim p \<Rightarrow> (cd, Inl seeds_not_array)
      | Array ss \<Rightarrow>
          if \<not> list_all seed_ok ss then (cd, Inl seed_incomplete)
          else
            (case Array_sort (compareMints L) ss of
               Inl e \<Rightarrow> (cd, Inl e)
             | Inr sortedSeeds \<Rightarrow> (cd, Inr (cd\<lparr>seeds := Array (canonical L ss)\<rparr>))))"
  by (auto simp: sortSeeds_def dest: Array_sort_Inr_canonical split: jsval.splits sum.splits)

text \<open>The payload and the accounts of \<open>useRecipe\<close>, in the specification's terms.\<close>

lemma useRecipe_layout:
  assumes "useRecipe L feePayerPubkey cd tokenAccounts option = Inr (Some ins)"
  shows "\<exists>c ss s q pdaPubkey ts.
     opcode option = Some c \<and> seeds cd = Array ss \<and> seedSalt cd = Some (JString s) \<and>
     toBaseUnits L (qty_requested cd) 6 = Inr (int q) \<and> q < 2 ^ 64 \<and>
     length tokenAccounts = 2 * length ss + 2 \<and>
     list_all2 (\<lambda>t k. PublicKey L t = Inr k) tokenAccounts ts \<and>
     data ins = use_payload c ss s q \<and>
     keys ins =
       [\<lparr>pubkey = feePayerPubkey, isSigner = True, isWritable = True\<rparr>,
        writable (FEE_ACCOUNT_PUBKEY L), readonly (CONFIG_ACCOUNT L), writable pdaPubkey,
        readonly (SystemProgram_programId L), readonly (TOKEN_PROGRAM_ID L),
        readonly (SYSVAR_RENT_PUBKEY L)] @ map (\<lambda>x. readonly (mint_bytes L x)) ss
        @ map writable ts"
proof -
  from useRecipe_Some [OF assms]
  obtain c ss qs saltBytes baseQty pdaPubkey ms ts where
    c: "opcode option = Some c" and ss: "seeds cd = Array ss" and
    len: "length tokenAccounts = 2 * length ss + 2" and
    ms: "list_all2 (\<lambda>s k. PublicKey L (mint s) = Inr k) ss ms" and
    qs: "list_all2 (\<lambda>s q. BigInt (amount_u64 s) = Inr q) ss qs" and
    sb: "Buffer_from (get_prim cd ''seedSalt'') = Inr saltBytes" and
    bq: "toBaseUnits L (qty_requested cd) 6 = Inr baseQty" "0 \<le> baseQty" "baseQty < 2 ^ 64" and
    ts: "list_all2 (\<lambda>t k. PublicKey L t = Inr k) tokenAccounts ts" and
    d: "data ins = [of_int c] @ le_bytes 4 (length ss)
        @ concat (map (\<lambda>q. le_bytes 8 (nat q)) qs) @ saltBuffer saltBytes
        @ le_bytes 8 (nat baseQty)" and
    k: "keys ins =
       [\<lparr>pubkey = feePayerPubkey, isSigner = True, isWritable = True\<rparr>,
        writable (FEE_ACCOUNT_PUBKEY L), readonly (CONFIG_ACCOUNT L), writable pdaPubkey,
        readonly (SystemProgram_programId L), readonly (TOKEN_PROGRAM_ID L),
        readonly (SYSVAR_RENT_PUBKEY L)] @ map readonly ms @ map writable ts"
    by blast
  from sb obtain s where s: "get_prim cd ''seedSalt'' = JString s" "saltBytes = Buffer_from_utf8 s"
    by (auto dest: Buffer_from_Inr)
  have q: "baseQty = int (nat baseQty)" "nat baseQty < 2 ^ 64"
    using bq(2,3) by (simp_all add: nat_less_iff)
  have keys: "map readonly ms = map (\<lambda>x. readonly (mint_bytes L x)) ss"
    using mints_mint_bytes [OF ms] by simp
  show ?thesis
    using c ss get_prim_seedSalt [OF s(1)] bq(1) q len ts d k keys s(2) amounts_quantities [OF qs]
    by (intro exI [of _ c] exI [of _ ss] exI [of _ s] exI [of _ "nat baseQty"]
        exI [of _ pdaPubkey] exI [of _ ts])
      (simp add: use_payload_def le_bytes_uint_le saltBuffer_salt_field)
qed


text \<open>The payload of \<open>createRecipe\<close>, in the specification's terms.\<close>

lemma createRecipe_layout:
  assumes "createRecipe L feePayerPubkey cd = (cd', Inr ins)"
  shows "\<exists>ss s nm sy. seeds cd = Array ss \<and> salt cd = Some (JString s) \<and>
     name cd = JString nm \<and> symbol cd = JString sy \<and>
     data ins = create_payload (canonical L ss) s nm sy
       (IPFS_GATEWAY @ ToString L (metadataCid cd))"
proof -
  from createRecipe_Inr [OF assms]
  have v: "validateCookedData L cd = (cd', Inr cd')"
    and b: "createRecipe_build L feePayerPubkey cd' = Inr ins"
    by auto
  from validateCookedData_Inr [OF v] obtain ss s and d :: derived where
    ss: "seeds cd = Array ss" and ok: "list_all seed_ok ss" and
    s: "salt cd = Some (JString s)" and
    cd': "cd' = cd\<lparr>seeds := Array (canonical L ss), pda := JString (toBase58 L (pdaKey d))\<rparr>"
    by blast
  have ok': "list_all seed_ok (canonical L ss)"
    using ok by (simp add: list_all_iff canonical_sorted)
  have seeds': "seeds cd' = Array (canonical L ss)" by (simp add: cd')
  from createRecipe_build_Inr [OF b seeds' ok'] obtain s' nm sy where
    s': "get_prim cd' ''salt'' = JString s'" and nm: "name cd' = JString nm" and
    sy: "symbol cd' = JString sy" and
    d: "data ins = create_payload (canonical L ss) s' nm sy
       (IPFS_GATEWAY @ ToString L (metadataCid cd'))"
    by blast
  from s' s have "s' = s" by (simp add: cd' get_prim_def get_field_def)
  with ss s nm sy d show ?thesis by (auto simp: cd')
qed


lemma uint_le_4_0: "uint_le 4 0 = [0, 0, 0, 0]"
  by (simp add: le_bytes_uint_le [symmetric] le_bytes_numeral)







section \<open>Concrete runs\<close>

lemma decode_mintA: "bs58_decode mintA = Some keyA"
  by (simp add: bs58_decode_def base58_alphabet_def be_bytes.simps mintA_def keyA_def)

lemma decode_mintB: "bs58_decode mintB = Some keyB"
  by (simp add: bs58_decode_def base58_alphabet_def be_bytes.simps mintB_def keyB_def)

lemma node_fields:
  "PublicKey node = node_PublicKey"
  "toBase58 node = bs58_encode"
  "sha256 node = stand_in_hash"
  "findProgramAddressSync node =
     (\<lambda>seeds program. Inr (stand_in_hash (concat seeds @ program), 255))"
  by (simp_all add: node_def)

lemma key_lengths: "length keyA = 32" "length keyB = 32"
  by (simp_all add: keyA_def keyB_def)

lemmas node_mints = decode_mintA decode_mintB key_lengths

lemma mints_truthy: "mintA \<noteq> []" "mintB \<noteq> []"
  by (simp_all add: mintA_def mintB_def)

lemma compare_keys: "Buffer_compare keyA keyB = 1" "Buffer_compare keyB keyA = - 1"
  by (simp_all add: keyA_def keyB_def)

lemma node_constants:
  "PROGRAM_ID node = key_of ''CooKTkMQ4V1zfr3faLVxgRwSYM86AWXsEbUC3aeDvXTe''"
  "FEE_ACCOUNT_PUBKEY node = key_of ''9Hp3RaH2Ve5hG9sBY7shMUSEYy5JcDDRWood8umBgUNm''"
  "CONFIG_ACCOUNT node = key_of ''GBWBR3gpHvFwVbipxph5dXzjedo9S12yfrD4Hpe57PE7''"
  "METADATA_PROGRAM_ID node = key_of ''metaqbxxUerdq28cj1RbAWkYQm3ybzjb6a8bt518x1s''"
  "SystemProgram_programId node = key_of ''11111111111111111111111111111111''"
  "TOKEN_PROGRAM_ID node = key_of ''TokenkegQfeZyiNwAJbNbGKPFXCWuBvf9Ss623VQ5DA''"
  "SYSVAR_RENT_PUBKEY node = key_of ''SysvarRent111111111111111111111111111111111''"
  by (simp_all add: node_def)

lemmas string_numeral_defs =
  StringToBigInt_def trimStart_def trimEnd_def parse_digits_def digit_val_def
  ws1_def ws2_def ws3_def

lemma BigInt_1000000: "StringToBigInt ''1000000'' = Some 1000000"
  by (simp add: string_numeral_defs)

lemma BigInt_2000000: "StringToBigInt ''2000000'' = Some 2000000"
  by (simp add: string_numeral_defs)

lemmas parse_defs =
  parseFloat_def parseFloat_string_def trimStart_def is_digit_def dec_value_def
  exponent_part_def Let_def ws1_def ws2_def ws3_def

lemmas round_defs =
  to_number_def round_double_def floorlog2_def round_half_even_def bit_length.simps Let_def

lemma parseFloat_2_5: "parseFloat L (JString ''2.5'') = to_number False 25 10"
  by (simp add: parse_defs)

lemma round_2_5: "to_number False 25 10 = Finite 5629499534213120 (- 51)"
  by (simp add: round_defs)

lemma round_million: "to_number False 1000000 (Suc 0) = Finite 8589934592000000 (- 33)"
  by (simp add: round_defs)

lemma scaled_2_5:
  "multiply (Finite 5629499534213120 (- 51)) (Finite 8589934592000000 (- 33)) =
     Finite 5368709120000000 (- 31)"
  by (simp add: round_defs)

lemma toBaseUnits_2_5: "toBaseUnits L (JString ''2.5'') 6 = Inr 2500000"
  by (simp add: toBaseUnits_def parseFloat_2_5 round_2_5 round_million scaled_2_5
      del: multiply.simps)

lemma saltBuffer_random_salt:
  "saltBuffer (Buffer_from_utf8 ''random-salt'') = random_salt_field"
  by (simp add: saltBuffer_def Buffer_from_utf8_def Buffer_copy_def Buffer_alloc_def
      random_salt_field_def replicate_numeral)

lemma program_key: "key_of ''CooKTkMQ4V1zfr3faLVxgRwSYM86AWXsEbUC3aeDvXTe'' = programKey"
  by (simp add: key_of_def bs58_decode_def base58_alphabet_def be_bytes.simps programKey_def)

lemma hashA:
  "stand_in_hash (keyA @ 64 # 66 # 15 # 0 # 0 # 0 # 0 # 0 # random_salt_field) = digestA"
  by (simp add: stand_in_hash_def keyA_def digestA_def random_salt_field_def replicate_numeral)

lemma hash0: "stand_in_hash random_salt_field = digest0"
  by (simp add: stand_in_hash_def digest0_def random_salt_field_def replicate_numeral)

lemma find_pdaA: "stand_in_hash (digestA @ programKey) = pdaA"
  by (simp add: stand_in_hash_def digestA_def programKey_def pdaA_def replicate_numeral)

lemma find_pda0: "stand_in_hash (digest0 @ programKey) = pda0"
  by (simp add: stand_in_hash_def digest0_def programKey_def pda0_def replicate_numeral)

lemma encode_pdaA: "bs58_encode pdaA = pdaA_text"
  by (simp add: bs58_encode_def pdaA_def pdaA_text_def base58_digits.simps base58_alphabet_def
      replicate_numeral)

lemma encode_pda0: "bs58_encode pda0 = pda0_text"
  by (simp add: bs58_encode_def pda0_def pda0_text_def base58_digits.simps base58_alphabet_def
      replicate_numeral)

lemma decode_pdaA: "bs58_decode pdaA_text = Some pdaA"
  by (simp add: bs58_decode_def base58_alphabet_def be_bytes.simps pdaA_def pdaA_text_def
      replicate_numeral)

lemma decode_pda0: "bs58_decode pda0_text = Some pda0"
  by (simp add: bs58_decode_def base58_alphabet_def be_bytes.simps pda0_def pda0_text_def
      replicate_numeral)

lemma pda_lengths: "length pdaA = 32" "length pda0 = 32"
  by (simp_all add: pdaA_def pda0_def)

lemma validData_ok:
  "truthy_val (seeds validData)" "truthy (metadataCid validData)" "truthy (name validData)"
  "truthy (symbol validData)" "salt validData = Some (JString ''random-salt'')"
  "seeds validData = Array [seedA]" "list_all seed_ok [seedA]"
  by (simp_all add: validData_def emptyData_def seedA_def seed_ok_def mints_truthy)

lemma derive_run:
  "derivePDAFromCookedData node validData =
     Inr \<lparr>pdaKey = pdaA, bump = 255, sha256Hash = digestA\<rparr>"
  by (simp add: derivePDAFromCookedData_def validData_def emptyData_def get_prim_def
      get_field_def seedChunk_def seedA_def node_fields node_mints BigInt_1000000
      writeBigUInt64LE_def write_le_alloc le_bytes_numeral saltBuffer_random_salt
      node_constants program_key hashA find_pdaA)

lemmas run_defs =
  validData_def emptyData_def noSeedsData_def unsortedData_def twoSeeds_def seedA_def seedB_def
  get_prim_def get_field_def seed_ok_def mints_truthy node_fields node_mints node_constants
  BigInt_1000000 BigInt_2000000 writeBigUInt64LE_def write_le_alloc le_bytes_numeral
  saltBuffer_random_salt program_key

lemma validate_run:
  "validateCookedData node validData =
     (validData\<lparr>pda := JString pdaA_text\<rparr>, Inr (validData\<lparr>pda := JString pdaA_text\<rparr>))"
  by (simp add: validateCookedData_unfold derivePDAFromCookedData_def seedChunk_def compareMints_def
      run_defs hashA find_pdaA encode_pdaA)

lemma validate_noSeeds_run:
  "validateCookedData node noSeedsData =
     (noSeedsData\<lparr>pda := JString pda0_text\<rparr>, Inr (noSeedsData\<lparr>pda := JString pda0_text\<rparr>))"
  by (simp add: validateCookedData_unfold derivePDAFromCookedData_def seedChunk_def compareMints_def
      run_defs hash0 find_pda0 encode_pda0)

lemma sort_twoSeeds: "Array_sort (compareMints node) [seedA, seedB] = Inr [seedB, seedA]"
  by (simp add: compareMints_def seedA_def seedB_def node_fields node_mints compare_keys)

lemma encodeString_demo:
  "encodeString (JString ''Test Recipe'') = Inr ([11, 0, 0, 0] @ Buffer_from_utf8 ''Test Recipe'')"
  "encodeString (JString ''TST'') = Inr ([3, 0, 0, 0] @ Buffer_from_utf8 ''TST'')"
  "encodeString (JString (IPFS_GATEWAY @ ''some-metadata-cid'')) =
     Inr ([38, 0, 0, 0] @ Buffer_from_utf8 ''https://ipfs.io/ipfs/some-metadata-cid'')"
  by (simp_all add: encodeString_def encodeU32_int le_bytes_numeral IPFS_GATEWAY_def
      Buffer_from_utf8_def)

lemma create_run:
  "createRecipe node payer validData =
     (validData\<lparr>pda := JString pdaA_text\<rparr>, Inr createInstruction)"
  by (simp add: createRecipe_def validate_run)
    (simp add: createRecipe_build_def run_defs decode_pdaA pda_lengths encodeU32_int
      encodeU64_BigInt writeUInt8_def write_le_def Buffer_alloc_def encodeString_demo
      createInstruction_def create_keys_def create_tail_def metadataKey_def
      readonly_def writable_def)

lemma create_noSeeds_run:
  "createRecipe node payer noSeedsData =
     (noSeedsData\<lparr>pda := JString pda0_text\<rparr>, Inr createInstruction0)"
  by (simp add: createRecipe_def validate_noSeeds_run)
    (simp add: createRecipe_build_def run_defs decode_pda0 pda_lengths encodeU32_int
      encodeU64_BigInt writeUInt8_def write_le_def Buffer_alloc_def encodeString_demo
      createInstruction0_def create_keys_def create_tail_def metadataKey_def
      readonly_def writable_def)

lemma cookRequest_valid: "validateCookedDataForCooking cookRequest = Inr cookRequest"
  by (simp add: validateCookedDataForCooking_def cookRequest_def emptyData_def get_field_def
      twoSeeds_def seedA_def seedB_def seed_ok_def mints_truthy)

lemma cook_run:
  "useRecipe node payer cookRequest cookAccounts (JNumber (Finite 2 0)) =
     Inr (Some cookInstruction)"
  by (simp add: useRecipe_def cookRequest_valid)
    (simp add: cookRequest_def emptyData_def twoSeeds_def seedA_def seedB_def cookAccounts_def
      cookInstruction_def node_fields node_mints node_constants get_prim_def
      get_field_def mints_truthy
      BigInt_1000000 BigInt_2000000 toBaseUnits_2_5 encodeU32_int encodeU64_BigInt
      writeUInt8_def write_le_def Buffer_alloc_def saltBuffer_random_salt
      le_bytes_numeral replicate_numeral readonly_def writable_def)

lemma hashU:
  "stand_in_hash (keyB @ 128 # 132 # 30 # 0 # 0 # 0 # 0 # 0 # keyA @
      64 # 66 # 15 # 0 # 0 # 0 # 0 # 0 # random_salt_field) = digestU"
  by (simp add: stand_in_hash_def keyA_def keyB_def digestU_def random_salt_field_def
      replicate_numeral)

lemma find_pdaU: "stand_in_hash (digestU @ programKey) = pdaU"
  by (simp add: stand_in_hash_def digestU_def programKey_def pdaU_def replicate_numeral)

lemma encode_pdaU: "bs58_encode pdaU = pdaU_text"
  by (simp add: bs58_encode_def pdaU_def pdaU_text_def base58_digits.simps base58_alphabet_def
      replicate_numeral)

lemma validate_unsorted_run:
  "validateCookedData node unsortedData =
     (unsortedData\<lparr>seeds := Array [seedB, seedA], pda := JString pdaU_text\<rparr>,
      Inr (unsortedData\<lparr>seeds := Array [seedB, seedA], pda := JString pdaU_text\<rparr>))"
  by (simp add: validateCookedData_unfold derivePDAFromCookedData_def seedChunk_def
      compareMints_def compare_keys run_defs hashU find_pdaU encode_pdaU)

lemma sortSeeds_run:
  "sortSeeds node cookRequest = (cookRequest, Inr sortedRequest)"
  by (simp add: sortSeeds_def cookRequest_def emptyData_def sortedRequest_def twoSeeds_def
      compareMints_def node_fields node_mints compare_keys seedA_def seedB_def seed_ok_def
      mints_truthy)

lemma sortedRequest_valid: "validateCookedDataForCooking sortedRequest = Inr sortedRequest"
  by (simp add: validateCookedDataForCooking_def sortedRequest_def cookRequest_def emptyData_def
      get_field_def seedA_def seedB_def seed_ok_def mints_truthy)

lemma cook_sorted_run:
  "useRecipe node payer sortedRequest cookAccounts (JNumber (Finite 2 0)) =
     Inr (Some sortedInstruction)"
  by (simp add: useRecipe_def sortedRequest_valid)
    (simp add: sortedRequest_def cookRequest_def emptyData_def seedA_def seedB_def
      cookAccounts_def sortedInstruction_def node_fields node_mints node_constants get_prim_def
      get_field_def mints_truthy BigInt_1000000 BigInt_2000000 toBaseUnits_2_5 encodeU32_int
      encodeU64_BigInt writeUInt8_def write_le_def Buffer_alloc_def saltBuffer_random_salt
      le_bytes_numeral replicate_numeral readonly_def writable_def)

lemma instructions_differ: "sortedInstruction \<noteq> cookInstruction"
proof
  assume "sortedInstruction = cookInstruction"
  then have "data sortedInstruction = data cookInstruction" by simp
  then show False by (simp add: sortedInstruction_def cookInstruction_def)
qed










lemma parseFloat_abc: "parseFloat L (JString ''abc'') = NaN"
  by (simp add: parse_defs)



lemma cook_abc_run:
  "useRecipe node payer (cookRequest\<lparr>qty_requested := JString ''abc''\<rparr>)
     cookAccounts (JNumber (Finite 2 0)) = Inl (Error ''Invalid number in qty_requested'')"
  by (simp add: useRecipe_def validateCookedDataForCooking_def cookRequest_def emptyData_def twoSeeds_def
      seedA_def seedB_def seed_ok_def get_field_def
      cookAccounts_def node_fields node_mints node_constants get_prim_def
      mints_truthy BigInt_1000000 BigInt_2000000 toBaseUnits_def parseFloat_abc encodeU32_int
      encodeU64_BigInt writeUInt8_def write_le_def Buffer_alloc_def saltBuffer_random_salt
      le_bytes_numeral replicate_numeral readonly_def writable_def)












section \<open>Claims\<close>

text \<open>
  C9.  \<open>encodeU64\<close> on an integer \<open>x\<close>, given as a big integer or as an integral number:
  when \<open>0 \<le> x < 2^64\<close> it yields exactly 8 bytes whose unsigned little-endian reading is
  \<open>x\<close>; when \<open>x\<close> is negative or exceeds \<open>2^64 - 1\<close> it fails with a \<open>RangeError\<close>.
\<close>

theorem encodeU64_round_trip:
  assumes "v = JBigInt x \<or> (\<exists>n. v = JNumber n \<and> int_of_num n = Some x)"
  shows "(0 \<le> x \<and> x < 2 ^ 64 \<longrightarrow>
            (\<exists>bs. encodeU64 v = Inr bs \<and> length bs = 8 \<and> int (le_value bs) = x)) \<and>
         (x < 0 \<or> 2 ^ 64 \<le> x \<longrightarrow> encodeU64 v = Inl RangeError)"
proof -
  from assms have enc: "encodeU64 v =
      (if x < 0 \<or> 2 ^ 64 \<le> x then Inl RangeError else Inr (le_bytes 8 (nat x)))"
    using encodeU64_BigInt encodeU64_Number by blast
  have "int (le_value (le_bytes 8 (nat x))) = x" if "0 \<le> x" "x < 2 ^ 64"
  proof -
    have "nat x < 256 ^ 8" using that by (simp add: nat_less_iff)
    then have "le_value (le_bytes 8 (nat x)) = nat x" by (rule le_value_le_bytes)
    with that show ?thesis by simp
  qed
  with enc show ?thesis by (auto simp: le_bytes_length)
qed

theorem encodeU64_round_trip_witness:
  "(\<exists>bs. encodeU64 (JBigInt 1000000) = Inr bs \<and> length bs = 8 \<and> int (le_value bs) = 1000000) \<and>
   (\<exists>bs. encodeU64 (JNumber (Finite 5 1)) = Inr bs \<and> length bs = 8 \<and> int (le_value bs) = 10) \<and>
   encodeU64 (JBigInt (- 1)) = Inl RangeError \<and>
   encodeU64 (JBigInt (2 ^ 64)) = Inl RangeError"
  using encodeU64_round_trip [of "JBigInt 1000000" 1000000]
    encodeU64_round_trip [of "JNumber (Finite 5 1)" 10]
    encodeU64_round_trip [of "JBigInt (- 1)" "- 1"]
    encodeU64_round_trip [of "JBigInt (2 ^ 64)" "2 ^ 64"]
  by simp

text \<open>
  C10.  When \<open>option\<close> is not the number 2 or the number 3, \<open>useRecipe\<close> throws its
  invalid-option error whatever the other arguments are, so before any of them is read,
  and returns nothing.  When \<open>useRecipe\<close> returns an instruction, \<open>option\<close> is the number
  2 or 3 and the first byte of the payload is that number.
\<close>

theorem useRecipe_option:
  "(\<not> (\<exists>n. option = JNumber n \<and> (int_of_num n = Some 2 \<or> int_of_num n = Some 3)) \<longrightarrow>
      useRecipe L feePayerPubkey cd tokenAccounts option = Inl invalid_option) \<and>
   (useRecipe L feePayerPubkey cd tokenAccounts option = Inr (Some ins) \<longrightarrow>
      (\<exists>n c. option = JNumber n \<and> int_of_num n = Some c \<and> (c = 2 \<or> c = 3) \<and>
         take 1 (data ins) = [of_int c]))"
proof (intro conjI impI)
  assume "\<not> (\<exists>n. option = JNumber n \<and> (int_of_num n = Some 2 \<or> int_of_num n = Some 3))"
  then have "opcode option = None"
    by (cases option) (auto split: option.splits)
  then show "useRecipe L feePayerPubkey cd tokenAccounts option = Inl invalid_option"
    by (simp add: useRecipe_def)
next
  assume "useRecipe L feePayerPubkey cd tokenAccounts option = Inr (Some ins)"
  then obtain c rest where c: "opcode option = Some c" and d: "data ins = [of_int c] @ rest"
    by (blast dest: useRecipe_Some)
  from c have "c = 2 \<or> c = 3" by (rule opcode_Some)
  moreover from c obtain n where "option = JNumber n" "int_of_num n = Some c"
    by (cases option) (auto split: option.splits if_splits)
  ultimately show "\<exists>n c. option = JNumber n \<and> int_of_num n = Some c \<and> (c = 2 \<or> c = 3) \<and>
      take 1 (data ins) = [of_int c]"
    using d by auto
qed

theorem useRecipe_option_witness:
  "useRecipe node payer cookRequest cookAccounts (JNumber (Finite 1 0)) = Inl invalid_option \<and>
   useRecipe node payer cookRequest cookAccounts (JString ''2'') = Inl invalid_option \<and>
   useRecipe node payer cookRequest cookAccounts (JNumber (Finite 2 0)) = Inr (Some cookInstruction) \<and>
   take 1 (data cookInstruction) = [2]"
  using useRecipe_option [of "JNumber (Finite 1 0)" node payer cookRequest cookAccounts cookInstruction]
    useRecipe_option [of "JString ''2''" node payer cookRequest cookAccounts cookInstruction]
    useRecipe_option [of "JNumber (Finite 2 0)" node payer cookRequest cookAccounts cookInstruction]
    cook_run
  by simp




text \<open>
  C1.  When \<open>derivePDAFromCookedData\<close> accepts a description, the digest it returns is
  SHA-256 of the preimage the specification describes: for each seed in ascending
  byte-wise order of its mint address, the mint's bytes followed by the quantity as 8
  bytes little-endian, and after the seeds the 32-byte salt field.  Every mint decodes and
  every quantity is an unsigned 64-bit integer.
\<close>

theorem derivePDAFromCookedData_digest:
  assumes "derivePDAFromCookedData L cd = Inr r"
  shows "\<exists>ss s. seeds cd = Array ss \<and> salt cd = Some (JString s) \<and>
     (\<forall>x\<in>set ss. \<exists>k q. PublicKey L (mint x) = Inr k \<and> BigInt (amount_u64 x) = Inr q \<and>
         0 \<le> q \<and> q < 2 ^ 64) \<and>
     mset (canonical L ss) = mset ss \<and> sorted (map (mint_bytes L) (canonical L ss)) \<and>
     sha256Hash r = sha256 L (preimage L ss s)"
  using derivePDAFromCookedData_Inr [OF assms] by (auto simp: canonical_sorted)

text \<open>
  Scenario A: the single seed (\<open>mintA\<close>, 1000000) and the salt \<open>random-salt\<close>.  The preimage
  is the 32 bytes of the mint, 1000000 as 8 bytes little-endian, and the salt padded with
  21 zero bytes.
\<close>

theorem derivePDAFromCookedData_digest_witness:
  "derivePDAFromCookedData node validData =
     Inr \<lparr>pdaKey = pdaA, bump = 255, sha256Hash = digestA\<rparr> \<and>
   digestA = sha256 node (preimage node [seedA] ''random-salt'') \<and>
   preimage node [seedA] ''random-salt'' =
     keyA @ [64, 66, 15, 0, 0, 0, 0, 0] @ Buffer_from_utf8 ''random-salt'' @ replicate 21 0"
proof -
  from derivePDAFromCookedData_digest [OF derive_run]
  have "digestA = sha256 node (preimage node [seedA] ''random-salt'')"
    by (auto simp: validData_ok)
  moreover have "preimage node [seedA] ''random-salt'' =
      keyA @ [64, 66, 15, 0, 0, 0, 0, 0] @ Buffer_from_utf8 ''random-salt'' @ replicate 21 0"
    by (simp add: preimage_def canonical_def mint_bytes_def quantity_def seedA_def node_fields
        node_mints BigInt_1000000 le_bytes_uint_le [symmetric] le_bytes_numeral salt_field_def
        Buffer_from_utf8_def)
  ultimately show ?thesis using derive_run by simp
qed

text \<open>
  C2.  When \<open>createRecipe\<close> accepts its input, the payload of the instruction is the byte
  \<open>0x01\<close>, the seed count as 32 bits little-endian, the quantity of each seed (in canonical
  order) as 64 bits little-endian, the 32-byte salt field, and the length-prefixed UTF-8
  encodings of the name, the symbol and the gateway prefix followed by \<open>metadataCid\<close>, and
  nothing else.
\<close>

theorem createRecipe_payload:
  assumes "createRecipe L feePayerPubkey cd = (cd', Inr ins)"
  shows "\<exists>ss s nm sy. seeds cd = Array ss \<and> salt cd = Some (JString s) \<and>
     name cd = JString nm \<and> symbol cd = JString sy \<and>
     data ins = create_payload (canonical L ss) s nm sy
       (IPFS_GATEWAY @ ToString L (metadataCid cd))"
  using assms by (rule createRecipe_layout)

theorem createRecipe_payload_witness:
  "createRecipe node payer validData =
     (validData\<lparr>pda := JString pdaA_text\<rparr>, Inr createInstruction) \<and>
   data createInstruction =
     create_payload [seedA] ''random-salt'' ''Test Recipe'' ''TST''
       ''https://ipfs.io/ipfs/some-metadata-cid'' \<and>
   data createInstruction =
     [1] @ [1, 0, 0, 0] @ [64, 66, 15, 0, 0, 0, 0, 0]
       @ Buffer_from_utf8 ''random-salt'' @ replicate 21 0
       @ [11, 0, 0, 0] @ Buffer_from_utf8 ''Test Recipe''
       @ [3, 0, 0, 0] @ Buffer_from_utf8 ''TST''
       @ [38, 0, 0, 0] @ Buffer_from_utf8 ''https://ipfs.io/ipfs/some-metadata-cid''"
proof -
  from createRecipe_payload [OF create_run]
  have "data createInstruction =
      create_payload (canonical node [seedA]) ''random-salt'' ''Test Recipe'' ''TST''
        (IPFS_GATEWAY @ ToString node (metadataCid validData))"
    by (auto simp: validData_ok) (simp add: validData_def emptyData_def)
  then have "data createInstruction =
     create_payload [seedA] ''random-salt'' ''Test Recipe'' ''TST''
       ''https://ipfs.io/ipfs/some-metadata-cid''"
    by (simp add: canonical_def IPFS_GATEWAY_def validData_def emptyData_def)
  moreover have "data createInstruction =
     [1] @ [1, 0, 0, 0] @ [64, 66, 15, 0, 0, 0, 0, 0]
       @ Buffer_from_utf8 ''random-salt'' @ replicate 21 0
       @ [11, 0, 0, 0] @ Buffer_from_utf8 ''Test Recipe''
       @ [3, 0, 0, 0] @ Buffer_from_utf8 ''TST''
       @ [38, 0, 0, 0] @ Buffer_from_utf8 ''https://ipfs.io/ipfs/some-metadata-cid''"
    by (simp add: createInstruction_def random_salt_field_def create_tail_def
        Buffer_from_utf8_def)
  ultimately show ?thesis using create_run by simp
qed

text \<open>
  C5, as the code has it.  The test on \<open>seeds\<close> is one of truth: validation fails with the
  error that names \<open>seeds\<close> when the property is absent or holds a falsy value.  An empty
  array is truthy and is not rejected: with the other properties valid, validation
  succeeds on it, and \<open>createRecipe\<close> builds an instruction whose seed count is zero.
\<close>

theorem validateCookedData_seeds:
  "(\<not> truthy_val (seeds cd) \<longrightarrow>
      validateCookedData L cd = (cd, Inl (missing_field ''seeds'')) \<and>
      createRecipe L feePayerPubkey cd = (cd, Inl (missing_field ''seeds''))) \<and>
   (seeds cd = Array [] \<and> truthy (metadataCid cd) \<and> truthy (name cd) \<and> truthy (symbol cd) \<and>
    salt cd = Some (JString s) \<and>
    findProgramAddressSync L [sha256 L (salt_field s)] (PROGRAM_ID L) = Inr (p, b) \<longrightarrow>
      validateCookedData L cd =
        (cd\<lparr>pda := JString (toBase58 L p)\<rparr>, Inr (cd\<lparr>pda := JString (toBase58 L p)\<rparr>))) \<and>
   (seeds cd = Array [] \<and> createRecipe L feePayerPubkey cd = (cd', Inr ins) \<longrightarrow>
      take 5 (data ins) = [1, 0, 0, 0, 0])"
proof (intro conjI impI)
  assume "\<not> truthy_val (seeds cd)"
  then show "validateCookedData L cd = (cd, Inl (missing_field ''seeds''))"
    by (simp add: validateCookedData_unfold)
  then show "createRecipe L feePayerPubkey cd = (cd, Inl (missing_field ''seeds''))"
    by (simp add: createRecipe_def)
next
  assume a: "seeds cd = Array [] \<and> truthy (metadataCid cd) \<and> truthy (name cd) \<and>
    truthy (symbol cd) \<and> salt cd = Some (JString s) \<and>
    findProgramAddressSync L [sha256 L (salt_field s)] (PROGRAM_ID L) = Inr (p, b)"
  then have "cd\<lparr>seeds := Array []\<rparr> = cd" by simp
  with a show "validateCookedData L cd =
      (cd\<lparr>pda := JString (toBase58 L p)\<rparr>, Inr (cd\<lparr>pda := JString (toBase58 L p)\<rparr>))"
    by (simp add: validateCookedData_unfold derivePDAFromCookedData_def get_prim_def
        get_field_def saltBuffer_salt_field)
next
  assume a: "seeds cd = Array [] \<and> createRecipe L feePayerPubkey cd = (cd', Inr ins)"
  with createRecipe_layout [of L feePayerPubkey cd cd' ins]
  show "take 5 (data ins) = [1, 0, 0, 0, 0]"
    by (auto simp: create_payload_def canonical_def uint_le_4_0)
qed

theorem validateCookedData_seeds_witness:
  "validateCookedData node emptyData = (emptyData, Inl (missing_field ''seeds'')) \<and>
   createRecipe node payer emptyData = (emptyData, Inl (missing_field ''seeds'')) \<and>
   validateCookedData node noSeedsData =
     (noSeedsData\<lparr>pda := JString pda0_text\<rparr>, Inr (noSeedsData\<lparr>pda := JString pda0_text\<rparr>)) \<and>
   createRecipe node payer noSeedsData =
     (noSeedsData\<lparr>pda := JString pda0_text\<rparr>, Inr createInstruction0) \<and>
   take 5 (data createInstruction0) = [1, 0, 0, 0, 0]"
proof -
  have h1: "\<not> truthy_val (seeds emptyData)" by (simp add: emptyData_def)
  have h2: "seeds noSeedsData = Array [] \<and> truthy (metadataCid noSeedsData) \<and>
      truthy (name noSeedsData) \<and> truthy (symbol noSeedsData) \<and>
      salt noSeedsData = Some (JString ''random-salt'') \<and>
      findProgramAddressSync node [sha256 node (salt_field ''random-salt'')] (PROGRAM_ID node) =
        Inr (pda0, 255)"
    by (simp add: noSeedsData_def validData_def emptyData_def node_fields node_constants
        program_key saltBuffer_salt_field [symmetric] saltBuffer_random_salt hash0 find_pda0)
  have h3: "seeds noSeedsData = Array [] \<and>
      createRecipe node payer noSeedsData =
        (noSeedsData\<lparr>pda := JString pda0_text\<rparr>, Inr createInstruction0)"
    using create_noSeeds_run by (simp add: noSeedsData_def)
  from validateCookedData_seeds [of emptyData node payer] h1
  have "validateCookedData node emptyData = (emptyData, Inl (missing_field ''seeds'')) \<and>
      createRecipe node payer emptyData = (emptyData, Inl (missing_field ''seeds''))"
    by blast
  moreover from validateCookedData_seeds [of noSeedsData node payer "''random-salt''" pda0 255] h2
  have "validateCookedData node noSeedsData =
      (noSeedsData\<lparr>pda := JString pda0_text\<rparr>, Inr (noSeedsData\<lparr>pda := JString pda0_text\<rparr>))"
    by (simp add: node_fields encode_pda0)
  moreover from validateCookedData_seeds [of noSeedsData node payer _ _ _
      "noSeedsData\<lparr>pda := JString pda0_text\<rparr>" createInstruction0] h3
  have "take 5 (data createInstruction0) = [1, 0, 0, 0, 0]"
    by blast
  ultimately show ?thesis using h3 by simp
qed

text \<open>
  The claim as the specification words it fails: on the test's valid input with
  \<open>seeds: []\<close>, validation succeeds and \<open>createRecipe\<close> returns an instruction that opens
  with the opcode and a seed count of zero.
\<close>

theorem createRecipe_accepts_empty_seeds:
  "seeds noSeedsData = Array [] \<and>
   snd (validateCookedData node noSeedsData) = Inr (noSeedsData\<lparr>pda := JString pda0_text\<rparr>) \<and>
   snd (createRecipe node payer noSeedsData) = Inr createInstruction0 \<and>
   take 5 (data createInstruction0) = [1, 0, 0, 0, 0]"
  by (simp add: validate_noSeeds_run create_noSeeds_run)
    (simp add: noSeedsData_def createInstruction0_def)

text \<open>
  C6, as the code has it.  \<open>sortSeeds\<close> leaves the caller's object as it was, whatever the
  outcome, and returns the sorted seeds in a new object.  \<open>validateCookedData\<close>, and
  \<open>createRecipe\<close> through it, change the caller's object: on success its \<open>seeds\<close> array has
  been sorted in place into canonical order and its \<open>pda\<close> has been set; the object returned
  is the caller's.
\<close>

theorem caller_object_after_call:
  "fst (sortSeeds L cd) = cd \<and>
   (sortSeeds L cd = (c, Inr sortedCookedData) \<longrightarrow>
      (\<exists>ss. seeds cd = Array ss \<and> sortedCookedData = cd\<lparr>seeds := Array (canonical L ss)\<rparr>)) \<and>
   (validateCookedData L cd = (cd', Inr v) \<longrightarrow>
      (\<exists>ss k. seeds cd = Array ss \<and> v = cd' \<and>
         cd' = cd\<lparr>seeds := Array (canonical L ss), pda := JString (toBase58 L k)\<rparr>)) \<and>
   (createRecipe L feePayerPubkey cd = (cd'', Inr ins) \<longrightarrow>
      (\<exists>ss k. seeds cd = Array ss \<and>
         cd'' = cd\<lparr>seeds := Array (canonical L ss), pda := JString (toBase58 L k)\<rparr>))"
proof (intro conjI impI)
  show "fst (sortSeeds L cd) = cd"
    by (simp add: sortSeeds_unfold split: jsval.splits sum.splits)
next
  assume "sortSeeds L cd = (c, Inr sortedCookedData)"
  then show "\<exists>ss. seeds cd = Array ss \<and> sortedCookedData = cd\<lparr>seeds := Array (canonical L ss)\<rparr>"
    by (auto simp: sortSeeds_unfold split: jsval.splits sum.splits if_splits)
next
  assume "validateCookedData L cd = (cd', Inr v)"
  from validateCookedData_Inr [OF this]
  show "\<exists>ss k. seeds cd = Array ss \<and> v = cd' \<and>
      cd' = cd\<lparr>seeds := Array (canonical L ss), pda := JString (toBase58 L k)\<rparr>"
    by blast
next
  assume "createRecipe L feePayerPubkey cd = (cd'', Inr ins)"
  from createRecipe_Inr [OF this] have "validateCookedData L cd = (cd'', Inr cd'')" by simp
  from validateCookedData_Inr [OF this]
  show "\<exists>ss k. seeds cd = Array ss \<and>
      cd'' = cd\<lparr>seeds := Array (canonical L ss), pda := JString (toBase58 L k)\<rparr>"
    by blast
qed

theorem caller_object_after_call_witness:
  "fst (sortSeeds node cookRequest) = cookRequest \<and>
   sortSeeds node cookRequest = (cookRequest, Inr sortedRequest) \<and>
   sortedRequest = cookRequest\<lparr>seeds := Array (canonical node twoSeeds)\<rparr> \<and>
   validateCookedData node unsortedData =
     (unsortedData\<lparr>seeds := Array [seedB, seedA], pda := JString pdaU_text\<rparr>,
      Inr (unsortedData\<lparr>seeds := Array [seedB, seedA], pda := JString pdaU_text\<rparr>)) \<and>
   canonical node twoSeeds = [seedB, seedA] \<and>
   createRecipe node payer validData =
     (validData\<lparr>pda := JString pdaA_text\<rparr>, Inr createInstruction)"
proof -
  have twoSeeds: "seeds cookRequest = Array twoSeeds"
    by (simp add: cookRequest_def)
  from caller_object_after_call [of node cookRequest cookRequest sortedRequest] sortSeeds_run
  have "fst (sortSeeds node cookRequest) = cookRequest"
    and "sortedRequest = cookRequest\<lparr>seeds := Array (canonical node twoSeeds)\<rparr>"
    by (auto simp: twoSeeds)
  moreover have "canonical node twoSeeds = [seedB, seedA]"
    using Array_sort_Inr_canonical [OF sort_twoSeeds] by (simp add: twoSeeds_def)
  ultimately show ?thesis
    using sortSeeds_run validate_unsorted_run create_run by simp
qed

text \<open>
  The claim as the specification words it fails: after \<open>validateCookedData\<close> on two seeds
  given out of order, the caller's array holds them in the other order and the caller's
  object has a \<open>pda\<close> it did not have.
\<close>

theorem validateCookedData_mutates_input:
  "seeds unsortedData = Array [seedA, seedB] \<and> pda unsortedData = JUndefined \<and>
   seeds (fst (validateCookedData node unsortedData)) = Array [seedB, seedA] \<and>
   pda (fst (validateCookedData node unsortedData)) = JString pdaU_text \<and>
   fst (validateCookedData node unsortedData) \<noteq> unsortedData"
proof -
  have a: "seeds unsortedData = Array [seedA, seedB]" "pda unsortedData = JUndefined"
    by (simp_all add: unsortedData_def validData_def emptyData_def twoSeeds_def)
  have "seedA \<noteq> seedB" by (simp add: seedA_def seedB_def)
  then have "seeds (fst (validateCookedData node unsortedData)) \<noteq> seeds unsortedData"
    by (simp add: validate_unsorted_run a)
  then have "fst (validateCookedData node unsortedData) \<noteq> unsortedData" by auto
  then show ?thesis using a by (simp add: validate_unsorted_run)
qed




text \<open>
  C4, as the code has it.  \<open>useRecipe\<close> does not sort: the quantities of the payload and
  the mint entries of the account list (read-only, after the seven fixed accounts) follow
  the order in which the caller gave the seeds.  They are in canonical order when the
  caller's seeds are, as they are in what \<open>sortSeeds\<close> returns.
\<close>

theorem useRecipe_seed_order:
  "(useRecipe L feePayerPubkey cd tokenAccounts option = Inr (Some ins) \<longrightarrow>
      (\<exists>c ss s q. opcode option = Some c \<and> seeds cd = Array ss \<and>
         seedSalt cd = Some (JString s) \<and> data ins = use_payload c ss s q \<and>
         take (length ss) (drop 7 (keys ins)) = map (\<lambda>x. readonly (mint_bytes L x)) ss)) \<and>
   (sortSeeds L cd0 = (cd0', Inr cd) \<and>
    useRecipe L feePayerPubkey cd tokenAccounts option = Inr (Some ins) \<longrightarrow>
      (\<exists>c ss0 s q. seeds cd0 = Array ss0 \<and> data ins = use_payload c (canonical L ss0) s q \<and>
         take (length ss0) (drop 7 (keys ins)) =
           map (\<lambda>x. readonly (mint_bytes L x)) (canonical L ss0) \<and>
         sorted (map (mint_bytes L) (canonical L ss0))))"
proof (intro conjI impI)
  assume "useRecipe L feePayerPubkey cd tokenAccounts option = Inr (Some ins)"
  from useRecipe_layout [OF this]
  show "\<exists>c ss s q. opcode option = Some c \<and> seeds cd = Array ss \<and>
      seedSalt cd = Some (JString s) \<and> data ins = use_payload c ss s q \<and>
      take (length ss) (drop 7 (keys ins)) = map (\<lambda>x. readonly (mint_bytes L x)) ss"
    by auto
next
  assume a: "sortSeeds L cd0 = (cd0', Inr cd) \<and>
      useRecipe L feePayerPubkey cd tokenAccounts option = Inr (Some ins)"
  then obtain ss0 where ss0: "seeds cd0 = Array ss0"
    and cd: "cd = cd0\<lparr>seeds := Array (canonical L ss0)\<rparr>"
    by (auto simp: sortSeeds_unfold split: jsval.splits sum.splits if_splits)
  from a have "useRecipe L feePayerPubkey cd tokenAccounts option = Inr (Some ins)" by simp
  from useRecipe_layout [OF this] cd ss0
  show "\<exists>c ss0 s q. seeds cd0 = Array ss0 \<and> data ins = use_payload c (canonical L ss0) s q \<and>
      take (length ss0) (drop 7 (keys ins)) =
        map (\<lambda>x. readonly (mint_bytes L x)) (canonical L ss0) \<and>
      sorted (map (mint_bytes L) (canonical L ss0))"
    by (auto simp: canonical_sorted)
qed

theorem useRecipe_seed_order_witness:
  "useRecipe node payer cookRequest cookAccounts (JNumber (Finite 2 0)) =
     Inr (Some cookInstruction) \<and>
   seeds cookRequest = Array [seedA, seedB] \<and>
   take 2 (drop 7 (keys cookInstruction)) = [readonly keyA, readonly keyB] \<and>
   sortSeeds node cookRequest = (cookRequest, Inr sortedRequest) \<and>
   useRecipe node payer sortedRequest cookAccounts (JNumber (Finite 2 0)) =
     Inr (Some sortedInstruction) \<and>
   take 2 (drop 7 (keys sortedInstruction)) = [readonly keyB, readonly keyA] \<and>
   keyB < keyA"
proof -
  have mb: "mint_bytes node seedA = keyA" "mint_bytes node seedB = keyB"
    by (simp_all add: mint_bytes_def seedA_def seedB_def node_fields node_mints)
  have n: "seeds cookRequest = Array [seedA, seedB]"
    by (simp add: cookRequest_def twoSeeds_def)
  have c: "canonical node [seedA, seedB] = [seedB, seedA]"
    using Array_sort_Inr_canonical [OF sort_twoSeeds] by simp
  from useRecipe_seed_order [of node payer cookRequest cookAccounts "JNumber (Finite 2 0)"
      cookInstruction] cook_run
  have "take 2 (drop 7 (keys cookInstruction)) = [readonly keyA, readonly keyB]"
    by (auto simp: n mb numeral_2_eq_2)
  moreover
  from useRecipe_seed_order [of node payer sortedRequest cookAccounts "JNumber (Finite 2 0)"
      sortedInstruction cookRequest cookRequest] sortSeeds_run cook_sorted_run
  have "take 2 (drop 7 (keys sortedInstruction)) = [readonly keyB, readonly keyA]"
    by (auto simp: n c mb numeral_2_eq_2)
  moreover have "keyB < keyA" by (simp add: keyA_def keyB_def)
  ultimately show ?thesis
    using cook_run sortSeeds_run cook_sorted_run n by simp
qed

text \<open>
  The claim as the specification words it fails: given the seeds with the greater mint
  first, \<open>useRecipe\<close> emits them in that order, and the same seeds in the other order
  give another instruction.
\<close>

theorem useRecipe_keeps_caller_order:
  "keyB < keyA \<and>
   useRecipe node payer cookRequest cookAccounts (JNumber (Finite 2 0)) =
     Inr (Some cookInstruction) \<and>
   map pubkey (take 2 (drop 7 (keys cookInstruction))) = [keyA, keyB] \<and>
   take 16 (drop 5 (data cookInstruction)) =
     [64, 66, 15, 0, 0, 0, 0, 0] @ [128, 132, 30, 0, 0, 0, 0, 0] \<and>
   useRecipe node payer sortedRequest cookAccounts (JNumber (Finite 2 0)) \<noteq>
     useRecipe node payer cookRequest cookAccounts (JNumber (Finite 2 0))"
  by (simp add: cook_run cook_sorted_run instructions_differ)
    (simp add: cookInstruction_def keyA_def keyB_def readonly_def)






end
